theory Spec2Isabelle
  imports Complex_Main "HOL-Library.AList" "HOL-Library.Word" "HOL-Library.Char_ord"
    "HOL-Library.List_Lexorder" "HOL-Library.Log_Nat"
begin

section \<open>Data model\<close>

text \<open>
  The Python code passes dictionaries around.  A dictionary whose iteration order is
  read by the code is an association list with distinct keys that keeps the position of
  a key on update (\<open>AList.update\<close>, Python's insertion order); a dictionary that is only
  looked up is a map.  Strings are \<open>string\<close>.  A key that is absent from a dictionary
  and read with \<open>.get(key)\<close> or \<open>.get(key, '')\<close> is falsy exactly like the empty
  string, so an absent string field is the empty string.
\<close>

type_synonym timestamp = int

text \<open>The exceptions the modelled code raises or lets through.\<close>

datatype error =
    ValueError
  | TypeError
  | OverflowError
  | AttributeError
  | JSONDecodeError
  | UnicodeDecodeError
  | RemoteError
  | KeyboardInterrupt

text \<open>
  \<open>except Exception\<close> catches every exception above but \<open>KeyboardInterrupt\<close>, which
  derives from \<open>BaseException\<close>.
\<close>

definition is_exception :: "error \<Rightarrow> bool" where
  "is_exception e = (e \<noteq> KeyboardInterrupt)"

text \<open>A loop whose body can raise: the first exception ends it.\<close>

fun fold_err :: "('a \<Rightarrow> 'b \<Rightarrow> error + 'a) \<Rightarrow> 'a \<Rightarrow> 'b list \<Rightarrow> error + 'a" where
  "fold_err f a [] = Inr a"
| "fold_err f a (x # xs) =
     (case f a x of Inl e \<Rightarrow> Inl e | Inr a' \<Rightarrow> fold_err f a' xs)"

text \<open>
  The country variant built by \<open>_create_country_variant_from_bulk\<close>.  The fields that
  only carry presentation data (price, size, title, handle, description, image) are read
  by none of the functions below and are left out.  \<open>inventory_quantity\<close> is the integer
  the projection sums.
\<close>

record country_variant =
  cv_id :: string
  shopify_variant_id :: string
  country_code :: string
  country_name :: string
  inventory_quantity :: int
  sku :: string
  product_id :: string

record variant_state =
  stock_status :: string
  last_updated :: timestamp

text \<open>A feed row as \<open>csv.writer\<close> receives it: id, override (country), availability.\<close>

type_synonym csv_row = "string \<times> string \<times> string"

text \<open>
  The files the components read and write: the checkpoint (\<open>sync_state.json\<close>), the
  per-key states (\<open>variant_states.json\<close>), the fingerprint (\<open>mapping_comparison.json\<close>)
  and the feed directory, a map from file name to the rows below the header.  \<open>None\<close> is
  an absent file.  Writes are taken to succeed; the source logs and swallows a failed
  write.
\<close>

record disk =
  sync_state_file :: "timestamp option"
  variant_states_file :: "(string \<rightharpoonup> variant_state) option"
  mapping_comparison_file :: "128 word option"
  output_dir :: "string \<rightharpoonup> csv_row list"

section \<open>\<open>_safe_int\<close>\<close>

text \<open>
  \<open>float(str(v))\<close> for an integer \<open>v\<close>: the decimal digits are rounded to the nearest
  double, ties to even, that is to 53 significant bits; a magnitude that rounds to
  \<open>2^1024\<close> or more becomes an infinity (\<open>None\<close>).
\<close>

definition round_magnitude :: "int \<Rightarrow> int" where
  "round_magnitude a =
     (let n = bitlen a in
      if n \<le> 53 then a
      else
        let s = nat (n - 53);
            q = a div 2 ^ s;
            r = a mod 2 ^ s;
            h = 2 ^ (s - 1);
            q' = (if r > h \<or> (r = h \<and> odd q) then q + 1 else q)
        in q' * 2 ^ s)"

definition double_overflow :: int where
  "double_overflow = 2 ^ 1024"

definition double_of_int :: "int \<Rightarrow> int option" where
  "double_of_int v =
     (let m = round_magnitude \<bar>v\<bar>
      in if m \<ge> double_overflow then None else Some (sgn v * m))"

text \<open>
  \<open>_safe_int\<close> is \<open>int(float(str(value)))\<close> inside \<open>try\<close> with
  \<open>except (ValueError, TypeError): return 0\<close>.  On an integer neither of the two is
  raised; \<open>int\<close> of an infinity raises \<open>OverflowError\<close>, which the handler lets through.
  (An interpreter limit on the number of digits \<open>str\<close> converts is not modelled.)
\<close>

definition safe_int :: "int \<Rightarrow> error + int" where
  "safe_int v = (case double_of_int v of None \<Rightarrow> Inl OverflowError | Some x \<Rightarrow> Inr x)"

section \<open>state\_manager.py\<close>

text \<open>
  \<open>inventory_qty = self._safe_int(...)\<close> followed by
  \<open>"in stock" if inventory_qty > 0 else "out of stock"\<close>.
\<close>

definition status_text :: "int \<Rightarrow> string" where
  "status_text inventory_qty = (if inventory_qty > 0 then ''in stock'' else ''out of stock'')"

definition current_status_of :: "country_variant \<Rightarrow> error + string" where
  "current_status_of v =
     (case safe_int (inventory_quantity v) of
        Inl e \<Rightarrow> Inl e
      | Inr inventory_qty \<Rightarrow> Inr (status_text inventory_qty))"

text \<open>Whether \<open>_safe_int\<close> returns on the quantity of a variant.\<close>

definition converts :: "country_variant \<Rightarrow> bool" where
  "converts v = (case safe_int (inventory_quantity v) of Inl e \<Rightarrow> False | Inr q \<Rightarrow> True)"

definition load_variant_states :: "disk \<Rightarrow> (string \<rightharpoonup> variant_state)" where
  "load_variant_states d =
     (case variant_states_file d of None \<Rightarrow> Map.empty | Some m \<Rightarrow> m)"

text \<open>
  The first loop of \<open>detect_stock_changes\<close>: the dictionary \<open>variant_lookup\<close>.  The call
  of \<open>_safe_int\<close> is in no \<open>try\<close>.
\<close>

definition lookup_step ::
  "(string \<times> country_variant \<times> string) list \<Rightarrow> country_variant
     \<Rightarrow> error + (string \<times> country_variant \<times> string) list" where
  "lookup_step lk v =
     (if cv_id v \<noteq> [] then
        (case current_status_of v of
           Inl e \<Rightarrow> Inl e
         | Inr current_status \<Rightarrow> Inr (AList.update (cv_id v) (v, current_status) lk))
      else Inr lk)"

definition variant_lookup ::
  "country_variant list \<Rightarrow> error + (string \<times> country_variant \<times> string) list" where
  "variant_lookup current_variants = fold_err lookup_step [] current_variants"

text \<open>The second loop: the \<open>if\<close>/\<open>elif\<close> over the items of \<open>variant_lookup\<close>.\<close>

fun compare_states ::
  "(string \<rightharpoonup> variant_state) \<Rightarrow> (string \<times> country_variant \<times> string) list
     \<Rightarrow> country_variant list \<times> country_variant list" where
  "compare_states existing [] = ([], [])"
| "compare_states existing ((variant_id, variant, current_status) # rest) =
     (let (new_variants, changed_variants) = compare_states existing rest in
      (case existing variant_id of
         None \<Rightarrow> (variant # new_variants, changed_variants)
       | Some st \<Rightarrow>
           if stock_status st \<noteq> current_status
           then (new_variants, variant # changed_variants)
           else (new_variants, changed_variants)))"

definition detect_stock_changes ::
  "disk \<Rightarrow> country_variant list \<Rightarrow> error + country_variant list \<times> country_variant list" where
  "detect_stock_changes d current_variants =
     (if current_variants = [] then Inr ([], [])
      else
        (case variant_lookup current_variants of
           Inl e \<Rightarrow> Inl e
         | Inr lk \<Rightarrow> Inr (compare_states (load_variant_states d) lk)))"

definition state_step ::
  "timestamp \<Rightarrow> (string \<rightharpoonup> variant_state) \<Rightarrow> country_variant
     \<Rightarrow> error + (string \<rightharpoonup> variant_state)" where
  "state_step ts existing v =
     (if cv_id v \<noteq> [] then
        (case current_status_of v of
           Inl e \<Rightarrow> Inl e
         | Inr current_status \<Rightarrow>
             Inr (existing(cv_id v \<mapsto> \<lparr>stock_status = current_status, last_updated = ts\<rparr>)))
      else Inr existing)"

text \<open>
  \<open>update_variant_states\<close>: an exception of the loop leaves before the file is written,
  so the result is the exception or the disk after the write.
\<close>

definition update_variant_states :: "timestamp \<Rightarrow> country_variant list \<Rightarrow> disk \<Rightarrow> error + disk" where
  "update_variant_states ts variants d =
     (if variants = [] then Inr d
      else
        (case fold_err (state_step ts) (load_variant_states d) variants of
           Inl e \<Rightarrow> Inl e
         | Inr states \<Rightarrow> Inr (d\<lparr>variant_states_file := Some states\<rparr>)))"

definition reset_variant_states :: "disk \<Rightarrow> disk" where
  "reset_variant_states d = d\<lparr>variant_states_file := None\<rparr>"

definition save_sync_state :: "timestamp \<Rightarrow> disk \<Rightarrow> disk" where
  "save_sync_state ts d = d\<lparr>sync_state_file := Some ts\<rparr>"

definition load_sync_state :: "disk \<Rightarrow> timestamp option" where
  "load_sync_state d = sync_state_file d"

text \<open>
  The variants \<open>detect_stock_changes\<close> leaves out of both lists; the source does not
  return them.
\<close>

definition unchanged_variants :: "disk \<Rightarrow> country_variant list \<Rightarrow> country_variant list" where
  "unchanged_variants d current_variants =
     (case detect_stock_changes d current_variants of
        Inl e \<Rightarrow> []
      | Inr (new_variants, changed_variants) \<Rightarrow>
          filter (\<lambda>v. v \<notin> set new_variants \<and> v \<notin> set changed_variants) current_variants)"

section \<open>csv\_exporter.py (Meta feed)\<close>

definition FEED_PREFIX :: string where
  "FEED_PREFIX = ''country_feed_''"

definition FEED_EXTENSION :: string where
  "FEED_EXTENSION = ''.csv''"

definition feed_filename :: "string \<Rightarrow> string" where
  "feed_filename country = FEED_PREFIX @ country @ FEED_EXTENSION"

text \<open>\<open>[A-Z]\<close> of the regular expressions: an ASCII capital letter.\<close>

definition upper_az :: "char \<Rightarrow> bool" where
  "upper_az c = (65 \<le> (of_char c :: nat) \<and> (of_char c :: nat) \<le> 90)"

text \<open>
  \<open>re.match(r'^[A-Z]{2}$', country_code)\<close>: two capital letters, and \<open>$\<close> also matches
  before one trailing newline.
\<close>

definition matches_country_code :: "string \<Rightarrow> bool" where
  "matches_country_code s =
     (case s of
        [a, b] \<Rightarrow> upper_az a \<and> upper_az b
      | [a, b, c] \<Rightarrow> upper_az a \<and> upper_az b \<and> c = CHR 0x0A
      | _ \<Rightarrow> False)"

text \<open>
  \<open>_extract_shopify_variant_id\<close>: \<open>composite_id.rsplit("-", 1)[0]\<close> when the id has a
  dash, the id itself otherwise.
\<close>

definition extract_shopify_variant_id :: "country_variant \<Rightarrow> string" where
  "extract_shopify_variant_id variant =
     (let composite_id = cv_id variant in
      if CHR ''-'' \<in> set composite_id
      then rev (tl (dropWhile (\<lambda>c. c \<noteq> CHR ''-'') (rev composite_id)))
      else composite_id)"

text \<open>
  \<open>inventory_qty = self._safe_int(variant.get("inventory_quantity", 0))\<close> followed by
  \<open>availability = "in stock" if inventory_qty > 0 else "out of stock"\<close>, as it stands in
  \<open>_format_csv_row\<close>, in \<open>_update_country_feed_streaming\<close> and in the Google exporter.
\<close>

definition availability_of :: "country_variant \<Rightarrow> error + string" where
  "availability_of variant =
     (case safe_int (inventory_quantity variant) of
        Inl e \<Rightarrow> Inl e
      | Inr inventory_qty \<Rightarrow> Inr (if inventory_qty > 0 then ''in stock'' else ''out of stock''))"

text \<open>
  \<open>_format_csv_row\<close>: the body is in \<open>try\<close> with \<open>except Exception: return None\<close>, and the
  one exception of the body is the \<open>OverflowError\<close> of \<open>_safe_int\<close>, so a variant whose
  quantity does not convert has no row.
\<close>

definition format_csv_row :: "country_variant \<Rightarrow> string \<Rightarrow> csv_row option" where
  "format_csv_row variant country =
     (let variant_id = extract_shopify_variant_id variant in
      if variant_id = [] then None
      else
        (case availability_of variant of
           Inl e \<Rightarrow> None
         | Inr availability \<Rightarrow> Some (variant_id, country, availability)))"

text \<open>
  \<open>_validate_variant_data\<close>; the first argument is \<open>settings.ENABLE_DATA_VALIDATION\<close>.
  The inventory threshold only logs.  The checks are in \<open>try\<close> with
  \<open>except Exception: return False\<close>, which is where the \<open>OverflowError\<close> of \<open>_safe_int\<close>
  ends.
\<close>

definition validate_variant_data :: "bool \<Rightarrow> country_variant \<Rightarrow> bool" where
  "validate_variant_data enabled variant =
     (if \<not> enabled then True
      else if cv_id variant = [] then False
      else if country_code variant = [] then False
      else
        (case safe_int (inventory_quantity variant) of
           Inl e \<Rightarrow> False
         | Inr inventory_qty \<Rightarrow>
             if inventory_qty < 0 then False
             else if \<not> matches_country_code (country_code variant) then False
             else True))"

text \<open>
  \<open>_get_current_countries\<close> and \<open>_get_countries_to_update\<close> have one body.  They return
  a Python set; the list below holds its elements once each, in an order the source does
  not fix and no statement here reads.
\<close>

definition get_current_countries :: "bool \<Rightarrow> country_variant list \<Rightarrow> string list" where
  "get_current_countries enabled variants =
     remdups (map country_code
       (filter (\<lambda>v. country_code v \<noteq> [] \<and> product_id v \<noteq> [] \<and>
                    validate_variant_data enabled v) variants))"

definition get_countries_to_update :: "bool \<Rightarrow> country_variant list \<Rightarrow> string list" where
  "get_countries_to_update enabled variants =
     remdups (map country_code
       (filter (\<lambda>v. country_code v \<noteq> [] \<and> product_id v \<noteq> [] \<and>
                    validate_variant_data enabled v) variants))"

definition create_country_variant_generator ::
  "country_variant list \<Rightarrow> string \<Rightarrow> country_variant list" where
  "create_country_variant_generator variants country =
     filter (\<lambda>v. country_code v = country \<and> product_id v \<noteq> []) variants"

text \<open>
  The rows \<open>_create_country_feed_streaming\<close> writes below the header.  Neither
  \<open>_validate_variant_data\<close> nor \<open>_format_csv_row\<close> raises, so the loop completes.
\<close>

definition feed_rows :: "bool \<Rightarrow> country_variant list \<Rightarrow> string \<Rightarrow> csv_row list" where
  "feed_rows enabled variant_generator country =
     List.map_filter
       (\<lambda>v. if validate_variant_data enabled v then format_csv_row v country else None)
       variant_generator"

definition create_country_feed_streaming ::
  "bool \<Rightarrow> country_variant list \<Rightarrow> string \<Rightarrow> string \<Rightarrow> disk \<Rightarrow> disk" where
  "create_country_feed_streaming enabled variant_generator country output_file d =
     d\<lparr>output_dir := (output_dir d)(output_file \<mapsto> feed_rows enabled variant_generator country)\<rparr>"

text \<open>
  \<open>_find_existing_country_files\<close> globs \<open>country_feed_*.csv\<close> in the output directory.
\<close>

definition glob_matches :: "string \<Rightarrow> bool" where
  "glob_matches f =
     (length FEED_PREFIX + length FEED_EXTENSION \<le> length f \<and>
      take (length FEED_PREFIX) f = FEED_PREFIX \<and>
      drop (length f - length FEED_EXTENSION) f = FEED_EXTENSION)"

text \<open>
  \<open>_extract_country_from_filename\<close>: \<open>re.search\<close> for
  \<open>country_feed_([A-Z]{2})\.csv$\<close>, that is the name (less one trailing newline) ends
  with the prefix, two capital letters and the extension.
\<close>

definition extract_country_from_filename :: "string \<Rightarrow> string option" where
  "extract_country_from_filename file_path =
     (let g = (if file_path \<noteq> [] \<and> last file_path = CHR 0x0A
               then butlast file_path else file_path);
          n = length FEED_PREFIX + 2 + length FEED_EXTENSION;
          t = drop (length g - n) g;
          cc = take 2 (drop (length FEED_PREFIX) t)
      in if n \<le> length g \<and> take (length FEED_PREFIX) t = FEED_PREFIX \<and>
            drop (length FEED_PREFIX + 2) t = FEED_EXTENSION \<and> list_all upper_az cc
         then Some cc else None)"

text \<open>
  \<open>_cleanup_orphaned_country_files\<close> unlinks every globbed file whose extracted country
  is not current; the directory afterwards, file by file.
\<close>

definition orphaned_file :: "string list \<Rightarrow> string \<Rightarrow> bool" where
  "orphaned_file current_countries f =
     (glob_matches f \<and>
      (case extract_country_from_filename f of
         None \<Rightarrow> False
       | Some country \<Rightarrow> country \<notin> set current_countries))"

definition cleanup_orphaned_country_files :: "string list \<Rightarrow> disk \<Rightarrow> disk" where
  "cleanup_orphaned_country_files current_countries d =
     d\<lparr>output_dir :=
         (\<lambda>f. if orphaned_file current_countries f then None else output_dir d f)\<rparr>"

definition full_step ::
  "bool \<Rightarrow> country_variant list \<Rightarrow> string list \<times> disk \<Rightarrow> string \<Rightarrow> string list \<times> disk" where
  "full_step enabled variants acc country =
     (let filepath = feed_filename country in
      (fst acc @ [filepath],
       create_country_feed_streaming enabled
         (create_country_variant_generator variants country) country filepath (snd acc)))"

definition create_country_feeds_full ::
  "bool \<Rightarrow> country_variant list \<Rightarrow> disk \<Rightarrow> string list \<times> disk" where
  "create_country_feeds_full enabled variants d =
     (if variants = [] then ([], d)
      else
        let current_countries = get_current_countries enabled variants;
            d1 = cleanup_orphaned_country_files current_countries d
        in foldl (full_step enabled variants) ([], d1) current_countries)"

text \<open>
  The dictionary \<open>change_lookup\<close> of \<open>_update_country_feed_streaming\<close>.  Its loop stands
  before the \<open>try\<close> of the function, so the \<open>OverflowError\<close> of \<open>_safe_int\<close> leaves the
  function.
\<close>

definition change_lookup_step ::
  "(string \<rightharpoonup> string) \<Rightarrow> country_variant \<Rightarrow> error + (string \<rightharpoonup> string)" where
  "change_lookup_step lk variant =
     (let variant_id = extract_shopify_variant_id variant in
      if variant_id \<noteq> [] then
        (case availability_of variant of
           Inl e \<Rightarrow> Inl e
         | Inr availability \<Rightarrow> Inr (lk(variant_id \<mapsto> availability)))
      else Inr lk)"

text \<open>The copy loop over the rows \<open>csv.DictReader\<close> yields from the existing file.\<close>

definition copy_existing_rows :: "(string \<rightharpoonup> string) \<Rightarrow> string \<Rightarrow> csv_row list \<Rightarrow> csv_row list" where
  "copy_existing_rows change_lookup country rows =
     map (\<lambda>(variant_id, override, availability).
            case change_lookup variant_id of
              Some a \<Rightarrow> (variant_id, country, a)
            | None \<Rightarrow> (variant_id, country, availability))
       (filter (\<lambda>(variant_id, override, availability). override = country) rows)"

definition update_country_feed_streaming ::
  "bool \<Rightarrow> country_variant list \<Rightarrow> country_variant list \<Rightarrow> string \<Rightarrow> string \<Rightarrow> disk
     \<Rightarrow> error + disk" where
  "update_country_feed_streaming enabled new_variants changed_variants country output_file d =
     (let country_new_variants = filter (\<lambda>v. country_code v = country) new_variants;
          country_changed_variants = filter (\<lambda>v. country_code v = country) changed_variants
      in if country_new_variants = [] \<and> country_changed_variants = [] then Inr d
         else
           (case fold_err change_lookup_step Map.empty country_changed_variants of
              Inl e \<Rightarrow> Inl e
            | Inr change_lookup \<Rightarrow>
                let copied = (case output_dir d output_file of
                                None \<Rightarrow> []
                              | Some rows \<Rightarrow> copy_existing_rows change_lookup country rows);
                    appended = feed_rows enabled country_new_variants country
                in Inr (d\<lparr>output_dir := (output_dir d)(output_file \<mapsto> copied @ appended)\<rparr>)))"

text \<open>
  The loop of \<open>update_country_feeds_incremental\<close> over \<open>countries_to_update\<close>, from the
  files updated so far and the disk.  An exception of \<open>_update_country_feed_streaming\<close>
  ends the loop and the function; the files of the countries before it are updated then.
\<close>

fun incremental_loop ::
  "bool \<Rightarrow> country_variant list \<Rightarrow> country_variant list \<Rightarrow> string list
     \<Rightarrow> string list \<times> disk \<Rightarrow> (error + string list) \<times> disk" where
  "incremental_loop enabled new_variants changed_variants [] (updated_files, d) =
     (Inr updated_files, d)"
| "incremental_loop enabled new_variants changed_variants (country # rest) (updated_files, d) =
     (let filepath = feed_filename country in
      case update_country_feed_streaming enabled new_variants changed_variants country
             filepath d of
        Inl e \<Rightarrow> (Inl e, d)
      | Inr d' \<Rightarrow>
          incremental_loop enabled new_variants changed_variants rest
            (updated_files @ [filepath], d'))"

definition update_country_feeds_incremental ::
  "bool \<Rightarrow> country_variant list \<Rightarrow> country_variant list \<Rightarrow> disk
     \<Rightarrow> (error + string list) \<times> disk" where
  "update_country_feeds_incremental enabled new_variants changed_variants d =
     (if new_variants = [] \<and> changed_variants = [] then (Inr [], d)
      else
        let all_changed = new_variants @ changed_variants;
            countries_to_update = get_countries_to_update enabled all_changed
        in incremental_loop enabled new_variants changed_variants countries_to_update ([], d))"

section \<open>tsv\_exporter.py (Google feed)\<close>

text \<open>
  \<open>_extract_variant_id\<close> has the body of \<open>_extract_shopify_variant_id\<close>, and the Google
  exporter's \<open>_validate_variant_data\<close> and \<open>_safe_int\<close> have the branches of the Meta
  exporter's.
\<close>

definition extract_variant_id :: "country_variant \<Rightarrow> string" where
  "extract_variant_id variant =
     (let composite_id = cv_id variant in
      if CHR ''-'' \<in> set composite_id
      then rev (tl (dropWhile (\<lambda>c. c \<noteq> CHR ''-'') (rev composite_id)))
      else composite_id)"

text \<open>
  The row \<open>create_country_feeds_full\<close> and \<open>_apply_variant_changes\<close> build for a variant:
  none when the variant fails validation, otherwise the composite id
  \<open>shopify_US_{product_id}_{base_id}\<close> with the availability.  \<open>_safe_int\<close> is called
  unguarded here; its exception ends the feed of the country in the \<open>except\<close> of the
  caller.
\<close>

definition tsv_row :: "bool \<Rightarrow> country_variant \<Rightarrow> error + (string \<times> string) option" where
  "tsv_row enabled variant =
     (if validate_variant_data enabled variant then
        (let base_id = extract_variant_id variant;
             composite_id = ''shopify_US_'' @ product_id variant @ ''_'' @ base_id
         in case availability_of variant of
              Inl e \<Rightarrow> Inl e
            | Inr availability \<Rightarrow> Inr (Some (composite_id, availability)))
      else Inr None)"

section \<open>product\_loader.py\<close>

text \<open>
  A field of a JSON object that the loader reads as an object, a list or a number: the
  key is absent, its value is \<open>null\<close>, or it has a value.
\<close>

datatype 'a field = Absent | Null | Value 'a

text \<open>
  A record of the export, as \<open>json.loads\<close> returns it for a line that is a JSON object.
  Strings and numbers are taken to have the types of the bulk query's schema.
  \<open>r_id\<close> and \<open>r_parent_id\<close> are \<open>record.get('id', '')\<close> and
  \<open>record.get('__parentId', '')\<close>, an absent or \<open>null\<close> one being falsy like the empty
  string.  \<open>r_product\<close> is the embedded product with its \<open>id\<close>; \<open>r_inventory_item\<close> is the
  object \<open>inventoryItem\<close>, given by its \<open>sku\<close> (empty when it has none); \<open>r_location\<close> is the
  object \<open>location\<close>, given by its \<open>id\<close> (empty when it has none); \<open>r_quantities\<close> is the list
  \<open>quantities\<close> of objects with a \<open>name\<close> and a \<open>quantity\<close>.
\<close>

record product_data =
  p_id :: "string field"

record bulk_record =
  r_id :: string
  r_parent_id :: string
  r_product :: "product_data field"
  r_inventory_item :: "string field"
  r_location :: "string field"
  r_quantities :: "(string \<times> int field) list field"

text \<open>
  A line of the export file, by what reading and decoding it does: the bytes are not UTF-8
  (the file iterator raises \<open>UnicodeDecodeError\<close>), the line is blank, it is not JSON
  (\<open>json.loads\<close> raises \<open>JSONDecodeError\<close>), it is JSON but not an object
  (\<open>record.get\<close> raises \<open>AttributeError\<close>), or it is a record.
\<close>

datatype jsonl_line =
    Undecodable
  | Blank
  | InvalidJson
  | NotAnObject
  | Record bulk_record

text \<open>
  The dictionaries \<open>products\<close>, \<open>variants\<close> and \<open>inventory_levels\<close>.  A product whose \<open>id\<close>
  is \<open>null\<close> is stored under the key \<open>None\<close>.
\<close>

type_synonym tables =
  "(string option \<times> product_data) list \<times> (string \<times> bulk_record) list \<times>
   (string \<times> bulk_record list) list"

text \<open>\<open>sub in s\<close> on strings.\<close>

fun contains :: "string \<Rightarrow> string \<Rightarrow> bool" where
  "contains sub [] = (sub = [])"
| "contains sub (c # cs) = (take (length sub) (c # cs) = sub \<or> contains sub cs)"

text \<open>\<open>dict.get(key, default)\<close> on an association list.\<close>

definition dict_get :: "('k \<times> 'v) list \<Rightarrow> 'k \<Rightarrow> 'v \<Rightarrow> 'v" where
  "dict_get al k dflt = (case map_of al k of None \<Rightarrow> dflt | Some v \<Rightarrow> v)"

text \<open>
  \<open>_process_bulk_record\<close>.  \<open>'product' in record and record['product']\<close> holds of a
  product object that is not empty, and then \<open>'id' in product_data\<close> of one with the key.
\<close>

definition process_bulk_record :: "bulk_record \<Rightarrow> tables \<Rightarrow> tables" where
  "process_bulk_record record t =
     (let (products, variants, inventory_levels) = t;
          record_id = r_id record;
          parent_id = r_parent_id record
      in if record_id \<noteq> [] \<and> parent_id = [] then
           if contains ''ProductVariant'' record_id then
             (case r_product record of
                Value product \<Rightarrow>
                  (case p_id product of
                     Value pid \<Rightarrow>
                       (AList.update (Some pid) product products,
                        AList.update record_id record variants, inventory_levels)
                   | Null \<Rightarrow>
                       (AList.update None product products,
                        AList.update record_id record variants, inventory_levels)
                   | Absent \<Rightarrow>
                       (products, AList.update record_id record variants, inventory_levels))
              | Null \<Rightarrow> (products, AList.update record_id record variants, inventory_levels)
              | Absent \<Rightarrow> (products, AList.update record_id record variants, inventory_levels))
           else if contains ''Product'' record_id then
             (AList.update (Some record_id) \<lparr>p_id = Value record_id\<rparr> products, variants,
              inventory_levels)
           else t
         else if parent_id \<noteq> [] then
           if r_location record \<noteq> Absent \<and> r_quantities record \<noteq> Absent then
             (products, variants,
              AList.update parent_id (dict_get inventory_levels parent_id [] @ [record])
                inventory_levels)
           else if record_id \<noteq> [] \<and> contains ''ProductVariant'' record_id then
             (products, AList.update record_id record variants, inventory_levels)
           else t
         else t)"

text \<open>
  The reading loop of \<open>load_products_from_bulk_jsonl\<close>.  The inner \<open>try\<close> catches
  \<open>JSONDecodeError\<close> only; every other exception leaves the loop.
\<close>

fun parse_lines :: "jsonl_line list \<Rightarrow> tables \<Rightarrow> error + tables" where
  "parse_lines [] t = Inr t"
| "parse_lines (Undecodable # ls) t = Inl UnicodeDecodeError"
| "parse_lines (Blank # ls) t = parse_lines ls t"
| "parse_lines (InvalidJson # ls) t = parse_lines ls t"
| "parse_lines (NotAnObject # ls) t = Inl AttributeError"
| "parse_lines (Record r # ls) t = parse_lines ls (process_bulk_record r t)"

record country_info =
  ci_name :: string
  market_id :: string

record location_info =
  loc_name :: string
  countries :: "string list"

type_synonym active_countries = "(string \<times> country_info) list"
type_synonym location_country_map = "(string \<times> location_info) list"

text \<open>\<open>s.split(sep)[-1]\<close>: what follows the last separator.\<close>

definition last_segment :: "char \<Rightarrow> string \<Rightarrow> string" where
  "last_segment sep s = rev (takeWhile (\<lambda>c. c \<noteq> sep) (rev s))"

text \<open>
  The loop over \<open>quantities\<close>: \<open>qty.get('quantity', 0)\<close> of the first entry named
  \<open>available\<close>, else 0.  \<open>None\<close> is Python's \<open>None\<close>, the value of a \<open>null\<close> quantity.
\<close>

fun available_quantity :: "(string \<times> int field) list \<Rightarrow> int option" where
  "available_quantity [] = Some 0"
| "available_quantity ((name, quantity) # rest) =
     (if name = ''available''
      then (case quantity of Absent \<Rightarrow> Some 0 | Null \<Rightarrow> None | Value q \<Rightarrow> Some q)
      else available_quantity rest)"

definition inventory_key :: "string \<Rightarrow> string \<Rightarrow> string" where
  "inventory_key variant_id country = variant_id @ ''-'' @ country"

definition add_country ::
  "active_countries \<Rightarrow> string \<Rightarrow> int \<Rightarrow> (string \<times> int) list \<Rightarrow> string \<Rightarrow> (string \<times> int) list" where
  "add_country active variant_id available_qty country_inventory country =
     (if country \<in> fst ` set active then
        let key = inventory_key variant_id country
        in AList.update key (dict_get country_inventory key 0 + available_qty) country_inventory
      else country_inventory)"

text \<open>
  The body of the loop over the levels of a variant.  \<open>level.get('location', {}).get\<close>
  raises \<open>AttributeError\<close> on a \<open>null\<close> location, \<open>for qty in quantities\<close> raises
  \<open>TypeError\<close> on a \<open>null\<close> list, and \<open>available_qty > 0\<close> raises \<open>TypeError\<close> on a \<open>null\<close>
  quantity.  None of them is caught.
\<close>

definition process_level ::
  "active_countries \<Rightarrow> location_country_map \<Rightarrow> string \<Rightarrow> (string \<times> int) list \<Rightarrow> bulk_record
     \<Rightarrow> error + (string \<times> int) list" where
  "process_level active location_country_map variant_id country_inventory level =
     (case r_location level of
        Null \<Rightarrow> Inl AttributeError
      | Absent \<Rightarrow> Inr country_inventory
      | Value location_gid \<Rightarrow>
          if location_gid = [] then Inr country_inventory
          else
            let location_id = last_segment CHR ''/'' location_gid in
            (case r_quantities level of
               Null \<Rightarrow> Inl TypeError
             | Absent \<Rightarrow> Inr country_inventory
             | Value quantities \<Rightarrow>
                 (case available_quantity quantities of
                    None \<Rightarrow> Inl TypeError
                  | Some available_qty \<Rightarrow>
                      (case map_of location_country_map location_id of
                         Some loc \<Rightarrow>
                           if available_qty > 0
                           then Inr (foldl (add_country active variant_id available_qty)
                                       country_inventory (countries loc))
                           else Inr country_inventory
                       | None \<Rightarrow> Inr country_inventory))))"

definition compute_country_inventory ::
  "active_countries \<Rightarrow> location_country_map \<Rightarrow> (string \<times> bulk_record list) list
     \<Rightarrow> error + (string \<times> int) list" where
  "compute_country_inventory active location_country_map inventory_levels =
     fold_err (\<lambda>ci (variant_id, levels).
                 fold_err (process_level active location_country_map variant_id) ci levels)
       [] inventory_levels"

text \<open>
  \<open>countries_with_inventory\<close> is a Python set; \<open>target_countries\<close> lists it, here in the
  order of first occurrence.
\<close>

definition target_countries :: "(string \<times> int) list \<Rightarrow> string list" where
  "target_countries country_inventory =
     remdups (map (\<lambda>(key, qty). last_segment CHR ''-'' key)
                (filter (\<lambda>(key, qty). qty > 0) country_inventory))"

text \<open>
  \<open>_create_country_variant_from_bulk\<close>.  \<open>inventory_item.get('sku', '')\<close> and
  \<open>product_data.get("id")\<close> raise \<open>AttributeError\<close> when \<open>inventoryItem\<close> or \<open>product\<close> is
  \<open>null\<close>; an absent one is the default \<open>{}\<close>.
\<close>

definition create_country_variant_from_bulk ::
  "bulk_record \<Rightarrow> product_data field \<Rightarrow> string \<Rightarrow> string \<Rightarrow> (string \<times> int) list
     \<Rightarrow> active_countries \<Rightarrow> error + country_variant" where
  "create_country_variant_from_bulk variant_data product country variant_gid
     country_inventory active =
     (let numeric_variant_id = last_segment CHR ''/'' variant_gid;
          inventory_qty = dict_get country_inventory (inventory_key variant_gid country) 0
      in if r_inventory_item variant_data = Null then Inl AttributeError
         else if product = Null then Inl AttributeError
         else
           Inr \<lparr>cv_id = numeric_variant_id @ ''-'' @ country,
                shopify_variant_id = numeric_variant_id,
                country_code = country,
                country_name = ci_name (dict_get active country \<lparr>ci_name = [], market_id = []\<rparr>),
                inventory_quantity = inventory_qty,
                sku = (case r_inventory_item variant_data of Value s \<Rightarrow> s | _ \<Rightarrow> []),
                product_id =
                  (case product of
                     Value p \<Rightarrow>
                       (case p_id p of
                          Value pid \<Rightarrow> if pid = [] then [] else last_segment CHR ''/'' pid
                        | _ \<Rightarrow> [])
                   | _ \<Rightarrow> [])\<rparr>)"

text \<open>
  The body of the loop over \<open>target_countries\<close> for one variant: the country variant is
  created first, and dropped afterwards when the variant has no SKU.
\<close>

definition variant_step ::
  "active_countries \<Rightarrow> (string \<times> int) list \<Rightarrow> string \<Rightarrow> bulk_record \<Rightarrow> country_variant list
     \<Rightarrow> string \<Rightarrow> error + country_variant list" where
  "variant_step active country_inventory variant_id variant_data final_variants country =
     (if country \<notin> fst ` set active then Inr final_variants
      else
        (case create_country_variant_from_bulk variant_data (r_product variant_data) country
                variant_id country_inventory active of
           Inl e \<Rightarrow> Inl e
         | Inr variant \<Rightarrow>
             (case r_inventory_item variant_data of
                Value s \<Rightarrow>
                  if s = [] then Inr final_variants else Inr (final_variants @ [variant])
              | _ \<Rightarrow> Inr final_variants)))"

definition variant_rows ::
  "active_countries \<Rightarrow> (string \<times> int) list \<Rightarrow> string list \<Rightarrow> country_variant list
     \<Rightarrow> string \<times> bulk_record \<Rightarrow> error + country_variant list" where
  "variant_rows active country_inventory targets final_variants entry =
     (let (variant_id, variant_data) = entry in
      fold_err (variant_step active country_inventory variant_id variant_data) final_variants
        targets)"

definition build_country_variants_from_bulk ::
  "tables \<Rightarrow> active_countries \<Rightarrow> location_country_map \<Rightarrow> error + country_variant list" where
  "build_country_variants_from_bulk t active location_country_map =
     (let (products, variants, inventory_levels) = t in
      case compute_country_inventory active location_country_map inventory_levels of
        Inl e \<Rightarrow> Inl e
      | Inr country_inventory \<Rightarrow>
          fold_err (variant_rows active country_inventory (target_countries country_inventory))
            [] variants)"

text \<open>
  \<open>load_products_from_bulk_jsonl\<close>; the file is \<open>None\<close> when the path does not exist.  The
  outer \<open>except Exception\<close> turns every exception of the reading loop into the empty list.
  \<open>_build_country_variants_from_bulk\<close> is called after the \<open>try\<close>, so its exceptions leave
  the function.
\<close>

definition load_products_from_bulk_jsonl ::
  "jsonl_line list option \<Rightarrow> active_countries \<Rightarrow> location_country_map
     \<Rightarrow> error + country_variant list" where
  "load_products_from_bulk_jsonl file active location_country_map =
     (case file of
        None \<Rightarrow> Inr []
      | Some lines \<Rightarrow>
          (case parse_lines lines ([], [], []) of
             Inl e \<Rightarrow> Inr []
           | Inr t \<Rightarrow> build_country_variants_from_bulk t active location_country_map))"

text \<open>The records of the lines that decode to one, in stream order.\<close>

fun records_of :: "jsonl_line list \<Rightarrow> bulk_record list" where
  "records_of [] = []"
| "records_of (Record r # ls) = r # records_of ls"
| "records_of (l # ls) = records_of ls"


section \<open>country\_location\_mapper.py\<close>

text \<open>
  The dictionary \<open>hash_structure\<close> that \<open>_generate_mapping_hash\<close> serialises: string keys
  with a string or a list of strings as value.
\<close>

datatype json_value = JStr string | JList "string list"

type_synonym hash_structure = "(string \<times> json_value) list"

text \<open>
  \<open>hashlib.md5(json.dumps(hash_structure, sort_keys=True, separators=(',', ':')).encode())\<close>
  is library code: the functions below take it as the parameter \<open>digest\<close>, from the
  structure to the 128 bits that \<open>hexdigest\<close> prints.
\<close>

definition mapping_hash_structure ::
  "active_countries \<Rightarrow> location_country_map \<Rightarrow> hash_structure" where
  "mapping_hash_structure active location_country_map =
     [(''countries'', JList (sort (map fst active))),
      (''locations'', JList (sort (map fst location_country_map))),
      (''method'', JStr ''bulk_operations'')]"

definition generate_mapping_hash ::
  "(hash_structure \<Rightarrow> 128 word) \<Rightarrow> active_countries \<Rightarrow> location_country_map \<Rightarrow> 128 word" where
  "generate_mapping_hash digest active location_country_map =
     digest (mapping_hash_structure active location_country_map)"

text \<open>
  The Google feed's mapper hashes \<open>settings.TARGET_COUNTRIES\<close> (a set, listed here) in
  place of the method.
\<close>

definition mapping_hash_structure_google ::
  "string list \<Rightarrow> active_countries \<Rightarrow> location_country_map \<Rightarrow> hash_structure" where
  "mapping_hash_structure_google target active location_country_map =
     [(''countries'', JList (sort (map fst active))),
      (''locations'', JList (sort (map fst location_country_map))),
      (''target_countries'', JList (sort target))]"

definition generate_mapping_hash_google ::
  "(hash_structure \<Rightarrow> 128 word) \<Rightarrow> string list \<Rightarrow> active_countries \<Rightarrow> location_country_map
     \<Rightarrow> 128 word" where
  "generate_mapping_hash_google digest target active location_country_map =
     digest (mapping_hash_structure_google target active location_country_map)"

text \<open>
  The mapping as \<open>_build_fresh_mapping\<close> returns it (\<open>created_at\<close> and \<open>method\<close> are not
  read).
\<close>

record mapping_data =
  md_active_countries :: active_countries
  md_location_country_map :: location_country_map
  mapping_hash :: "128 word"

text \<open>
  What a run finds outside the process: the settings, the cached mapping file (\<open>None\<close>
  when absent or unreadable), the outcome of the market, location and delivery-profile
  queries with the mapping parsed from them (or the exception they raise), the outcome of
  the bulk product query for a given \<open>since\<close> (an exception, no result file, or the lines
  of the file), the Drive folder setting, the outcome of the upload (the exception it
  raises or the number of files uploaded), and the clock.
\<close>

record environment =
  config_errors :: bool
  SMART_MAPPING_ENABLED :: bool
  ENABLE_DATA_VALIDATION :: bool
  cached_mapping :: "mapping_data option"
  remote_mapping :: "error + active_countries \<times> location_country_map"
  bulk_export :: "timestamp option \<Rightarrow> error + jsonl_line list option"
  GOOGLE_DRIVE_FOLDER_ID :: string
  upload_outcome :: "error + nat"
  md5_json :: "hash_structure \<Rightarrow> 128 word"
  now :: timestamp

definition build_fresh_mapping :: "environment \<Rightarrow> error + mapping_data" where
  "build_fresh_mapping env =
     (case remote_mapping env of
        Inl e \<Rightarrow> Inl e
      | Inr (active, location_country_map) \<Rightarrow>
          Inr \<lparr>md_active_countries = active,
               md_location_country_map = location_country_map,
               mapping_hash = generate_mapping_hash (md5_json env) active location_country_map\<rparr>)"

definition get_cached_mapping :: "environment \<Rightarrow> error + mapping_data" where
  "get_cached_mapping env =
     (case cached_mapping env of
        Some m \<Rightarrow> Inr m
      | None \<Rightarrow> build_fresh_mapping env)"

definition load_previous_mapping_hash :: "disk \<Rightarrow> 128 word option" where
  "load_previous_mapping_hash d = mapping_comparison_file d"

definition save_mapping_hash :: "128 word \<Rightarrow> disk \<Rightarrow> disk" where
  "save_mapping_hash h d = d\<lparr>mapping_comparison_file := Some h\<rparr>"

text \<open>
  \<open>get_mapping_with_change_detection\<close>; the first argument says whether the mapper was
  given a \<open>ShopifySync\<close> instance.  The result is the raised exception or the returned
  triple, and the disk afterwards.
\<close>

definition get_mapping_with_change_detection ::
  "bool \<Rightarrow> environment \<Rightarrow> disk \<Rightarrow> (error + mapping_data \<times> bool \<times> string) \<times> disk" where
  "get_mapping_with_change_detection shopify_sync env d =
     (if \<not> shopify_sync then (Inl ValueError, d)
      else if \<not> SMART_MAPPING_ENABLED env then
        (case get_cached_mapping env of
           Inl e \<Rightarrow> (Inl e, d)
         | Inr m \<Rightarrow> (Inr (m, False, ''Smart mapping disabled''), d))
      else
        (case build_fresh_mapping env of
           Inl e \<Rightarrow> (Inl e, d)
         | Inr fresh_mapping \<Rightarrow>
             let previous_hash = load_previous_mapping_hash d;
                 current_hash = mapping_hash fresh_mapping;
                 (reason, has_changed) =
                   (case previous_hash of
                      None \<Rightarrow> (''No previous mapping found - first run'', True)
                    | Some h \<Rightarrow>
                        if h \<noteq> current_hash
                        then (''Mapping structure changed - hash mismatch'', True)
                        else (''Mapping unchanged - hash match'', False))
             in (Inr (fresh_mapping, has_changed, reason), save_mapping_hash current_hash d)))"

section \<open>sync\_orchestrator.py\<close>

datatype sync_type = FULL | INCREMENTAL

definition determine_smart_sync_strategy ::
  "bool \<Rightarrow> string \<Rightarrow> disk \<Rightarrow> sync_type \<times> timestamp option" where
  "determine_smart_sync_strategy mapping_changed change_reason d =
     (let last_sync = load_sync_state d in
      if mapping_changed then (FULL, None)
      else if last_sync = None then (FULL, None)
      else (INCREMENTAL, last_sync))"

text \<open>
  \<open>_get_shopify_data\<close>: the exceptions of the bulk query and of the loader are not caught.
\<close>

definition get_shopify_data ::
  "environment \<Rightarrow> timestamp option \<Rightarrow> mapping_data \<Rightarrow> error + country_variant list" where
  "get_shopify_data env since_timestamp mapping =
     (case bulk_export env since_timestamp of
        Inl e \<Rightarrow> Inl e
      | Inr None \<Rightarrow> Inr []
      | Inr (Some lines) \<Rightarrow>
          load_products_from_bulk_jsonl (Some lines) (md_active_countries mapping)
            (md_location_country_map mapping))"

text \<open>
  \<open>_process_variants\<close>: the exception it raises or the list of files it returns, and the
  disk it leaves.  Nothing in it is caught.
\<close>

definition process_variants ::
  "environment \<Rightarrow> sync_type \<Rightarrow> country_variant list \<Rightarrow> disk
     \<Rightarrow> (error + string list) \<times> disk" where
  "process_variants env st variants d =
     (case st of
        FULL \<Rightarrow>
          let (created_files, d1) = create_country_feeds_full (ENABLE_DATA_VALIDATION env) variants d;
              d2 = reset_variant_states d1
          in (case update_variant_states (now env) variants d2 of
                Inl e \<Rightarrow> (Inl e, d2)
              | Inr d3 \<Rightarrow> (Inr created_files, d3))
      | INCREMENTAL \<Rightarrow>
          (case detect_stock_changes d variants of
             Inl e \<Rightarrow> (Inl e, d)
           | Inr (new_variants, changed_variants) \<Rightarrow>
               if new_variants = [] \<and> changed_variants = [] then (Inr [], d)
               else
                 (case update_country_feeds_incremental (ENABLE_DATA_VALIDATION env)
                         new_variants changed_variants d of
                    (Inl e, d1) \<Rightarrow> (Inl e, d1)
                  | (Inr created_files, d1) \<Rightarrow>
                      (case update_variant_states (now env) variants d1 of
                         Inl e \<Rightarrow> (Inl e, d1)
                       | Inr d2 \<Rightarrow> (Inr created_files, d2)))))"

text \<open>
  \<open>_run_smart_sync_with_detection\<close>.  \<open>sync_timestamp\<close> is five seconds before the start.
  Every exception is raised again (\<open>except Exception: raise\<close>, and \<open>KeyboardInterrupt\<close>
  passes the handler); the result is it or the normal return, with the disk the run
  leaves.  The upload is awaited directly and its exception propagates.
\<close>

definition run_smart_sync_with_detection :: "environment \<Rightarrow> disk \<Rightarrow> (error + unit) \<times> disk" where
  "run_smart_sync_with_detection env d =
     (let sync_timestamp = now env - 5 in
      if config_errors env then (Inl ValueError, d)
      else
        (case get_mapping_with_change_detection True env d of
           (Inl e, d1) \<Rightarrow> (Inl e, d1)
         | (Inr (mapping, mapping_changed, change_reason), d1) \<Rightarrow>
             let (st, since_timestamp) =
                   determine_smart_sync_strategy mapping_changed change_reason d1
             in (case get_shopify_data env since_timestamp mapping of
                   Inl e \<Rightarrow> (Inl e, d1)
                 | Inr variants \<Rightarrow>
                     if variants = [] then (Inr (), save_sync_state sync_timestamp d1)
                     else
                       (case process_variants env st variants d1 of
                          (Inl e, d2) \<Rightarrow> (Inl e, d2)
                        | (Inr created_files, d2) \<Rightarrow>
                            (case upload_outcome env of
                               Inl e \<Rightarrow> (Inl e, d2)
                             | Inr uploaded_count \<Rightarrow>
                                 (Inr (), save_sync_state sync_timestamp d2))))))"

text \<open>
  \<open>_upload_files\<close> of the full run: no upload without files or without a Drive folder;
  \<open>except Exception\<close> swallows the exceptions of the upload, \<open>KeyboardInterrupt\<close> is none.
\<close>

definition upload_files :: "environment \<Rightarrow> string list \<Rightarrow> error + unit" where
  "upload_files env created_files =
     (if created_files = [] then Inr ()
      else if GOOGLE_DRIVE_FOLDER_ID env = [] then Inr ()
      else
        (case upload_outcome env of
           Inl e \<Rightarrow> if is_exception e then Inr () else Inl e
         | Inr uploaded_count \<Rightarrow> Inr ()))"

text \<open>\<open>_run_full_sync\<close>.  With no variants the run returns without saving.\<close>

definition run_full_sync :: "environment \<Rightarrow> disk \<Rightarrow> (error + unit) \<times> disk" where
  "run_full_sync env d =
     (let sync_timestamp = now env - 5 in
      if config_errors env then (Inl ValueError, d)
      else
        (case get_mapping_with_change_detection True env d of
           (Inl e, d1) \<Rightarrow> (Inl e, d1)
         | (Inr (mapping, mapping_changed, change_reason), d1) \<Rightarrow>
             (case get_shopify_data env None mapping of
                Inl e \<Rightarrow> (Inl e, d1)
              | Inr variants \<Rightarrow>
                  if variants = [] then (Inr (), d1)
                  else
                    (case process_variants env FULL variants d1 of
                       (Inl e, d2) \<Rightarrow> (Inl e, d2)
                     | (Inr created_files, d2) \<Rightarrow>
                         (case upload_files env created_files of
                            Inl e \<Rightarrow> (Inl e, d2)
                          | Inr u \<Rightarrow> (Inr (), save_sync_state sync_timestamp d2))))))"

section \<open>The attributed quantity, as the specification words it\<close>

text \<open>
  The available quantity of an inventory level (0 when it has none), the countries the
  mapping lists for its location (none when the location is not a known, mapped one),
  and whether the location serves a country.
\<close>

definition level_available :: "bulk_record \<Rightarrow> int" where
  "level_available level =
     (case r_quantities level of
        Value quantities \<Rightarrow>
          (case available_quantity quantities of Some q \<Rightarrow> q | None \<Rightarrow> 0)
      | _ \<Rightarrow> 0)"

definition level_countries :: "location_country_map \<Rightarrow> bulk_record \<Rightarrow> string list" where
  "level_countries location_country_map level =
     (case r_location level of
        Value g \<Rightarrow>
          if g = [] then []
          else
            (case map_of location_country_map (last_segment CHR ''/'' g) of
               None \<Rightarrow> []
             | Some loc \<Rightarrow> countries loc)
      | _ \<Rightarrow> [])"

definition level_serves :: "location_country_map \<Rightarrow> bulk_record \<Rightarrow> string \<Rightarrow> bool" where
  "level_serves location_country_map level country =
     (country \<in> set (level_countries location_country_map level))"

definition levels_of :: "(string \<times> bulk_record list) list \<Rightarrow> string \<Rightarrow> bulk_record list" where
  "levels_of inventory_levels variant_id =
     concat (map snd (filter (\<lambda>entry. fst entry = variant_id) inventory_levels))"

text \<open>
  The sum the specification states: the available quantities of all of the variant's
  levels whose location serves the country.
\<close>

definition stated_quantity ::
  "(string \<times> bulk_record list) list \<Rightarrow> location_country_map \<Rightarrow> string \<Rightarrow> string \<Rightarrow> int" where
  "stated_quantity inventory_levels location_country_map variant_id country =
     sum_list (map level_available
       (filter (\<lambda>level. level_serves location_country_map level country)
          (levels_of inventory_levels variant_id)))"

text \<open>The same sum over the levels with a positive available quantity only.\<close>

definition attributed_quantity ::
  "(string \<times> bulk_record list) list \<Rightarrow> location_country_map \<Rightarrow> string \<Rightarrow> string \<Rightarrow> int" where
  "attributed_quantity inventory_levels location_country_map variant_id country =
     sum_list (map level_available
       (filter (\<lambda>level. level_available level > 0 \<and>
                         level_serves location_country_map level country)
          (levels_of inventory_levels variant_id)))"

text \<open>
  The sum the loop of the projection accumulates under the key of a variant and a
  country: every level with a positive available quantity counts once for each time the
  list of its location names the country.
\<close>

definition accumulated_quantity ::
  "(string \<times> bulk_record list) list \<Rightarrow> location_country_map \<Rightarrow> string \<Rightarrow> string \<Rightarrow> int" where
  "accumulated_quantity inventory_levels location_country_map variant_id country =
     sum_list (map (\<lambda>level. int (count_list (level_countries location_country_map level) country)
                             * level_available level)
       (filter (\<lambda>level. level_available level > 0) (levels_of inventory_levels variant_id)))"

text \<open>
  The shape of the dictionary \<open>country_inventory\<close>: distinct keys, each the key of a
  variant id and an active country.
\<close>

definition keyed_inventory :: "active_countries \<Rightarrow> (string \<times> int) list \<Rightarrow> bool" where
  "keyed_inventory active ci \<longleftrightarrow>
     distinct (map fst ci) \<and>
     (\<forall>k. k \<in> fst ` set ci \<longrightarrow> (\<exists>v c. c \<in> fst ` set active \<and> k = inventory_key v c))"

text \<open>The tables \<open>_process_bulk_record\<close> builds from a list of records.\<close>

definition tables_of :: "bulk_record list \<Rightarrow> tables" where
  "tables_of records = foldl (\<lambda>t r. process_bulk_record r t) ([], [], []) records"

section \<open>Example data\<close>

definition ex_variant :: "string \<Rightarrow> string \<Rightarrow> int \<Rightarrow> country_variant" where
  "ex_variant vid cc q =
     \<lparr>cv_id = vid @ ''-'' @ cc, shopify_variant_id = vid, country_code = cc,
      country_name = cc, inventory_quantity = q, sku = ''SKU-'' @ vid, product_id = ''P1''\<rparr>"

definition ex_disk :: disk where
  "ex_disk = \<lparr>sync_state_file = None,
     variant_states_file = Some [''2-US'' \<mapsto> \<lparr>stock_status = ''in stock'', last_updated = 0\<rparr>,
                                 ''3-US'' \<mapsto> \<lparr>stock_status = ''in stock'', last_updated = 0\<rparr>],
     mapping_comparison_file = None, output_dir = Map.empty\<rparr>"

definition ex_vs :: "country_variant list" where
  "ex_vs = [ex_variant ''1'' ''US'' 5, ex_variant ''2'' ''US'' 0, ex_variant ''3'' ''US'' 1]"

definition ex_noid :: country_variant where
  "ex_noid = (ex_variant ''1'' ''US'' 5)\<lparr>cv_id := []\<rparr>"

definition ex_huge :: country_variant where
  "ex_huge = ex_variant ''1'' ''US'' (10 ^ 400)"

definition ex_feed_disk :: disk where
  "ex_feed_disk = \<lparr>sync_state_file = None, variant_states_file = None,
     mapping_comparison_file = None,
     output_dir = [feed_filename ''US'' \<mapsto> [(''1'', ''US'', ''out of stock'')],
                   feed_filename ''CA'' \<mapsto> [(''2'', ''CA'', ''in stock'')],
                   feed_filename ''DE'' \<mapsto> [(''3'', ''DE'', ''in stock'')]]\<rparr>"

definition ex_full_vs :: "country_variant list" where
  "ex_full_vs = [ex_variant ''1'' ''US'' 5, (ex_variant ''2'' ''CA'' 4)\<lparr>product_id := []\<rparr>]"

definition ex_variant_record :: "string \<Rightarrow> bulk_record" where
  "ex_variant_record n =
     \<lparr>r_id = ''gid://shopify/ProductVariant/'' @ n, r_parent_id = [],
      r_product = Value \<lparr>p_id = Value ''gid://shopify/Product/9''\<rparr>,
      r_inventory_item = Value (''SKU-'' @ n), r_location = Absent, r_quantities = Absent\<rparr>"

definition ex_level_record :: "string \<Rightarrow> string \<Rightarrow> int \<Rightarrow> bulk_record" where
  "ex_level_record n loc q =
     \<lparr>r_id = [], r_parent_id = ''gid://shopify/ProductVariant/'' @ n, r_product = Absent,
      r_inventory_item = Absent, r_location = Value (''gid://shopify/Location/'' @ loc),
      r_quantities = Value [(''on_hand'', Value (q + 1)), (''available'', Value q)]\<rparr>"

definition ex_active :: active_countries where
  "ex_active = [(''US'', \<lparr>ci_name = ''United States'', market_id = ''m1''\<rparr>),
                (''CA'', \<lparr>ci_name = ''Canada'', market_id = ''m1''\<rparr>)]"

definition ex_locations :: location_country_map where
  "ex_locations = [(''10'', \<lparr>loc_name = ''East'', countries = [''US'']\<rparr>),
                   (''20'', \<lparr>loc_name = ''North'', countries = [''US'', ''CA'']\<rparr>)]"

definition ex_stream :: "jsonl_line list" where
  "ex_stream =
     [Record (ex_variant_record ''1''), Record (ex_level_record ''1'' ''10'' 5), Undecodable,
      Record (ex_variant_record ''2''), Record (ex_level_record ''2'' ''10'' 0),
      Record (ex_variant_record ''3''), Record (ex_level_record ''3'' ''20'' 2),
      Record (ex_variant_record ''4''), Record (ex_level_record ''4'' ''10'' 1),
      Record (ex_variant_record ''5'')]"

definition ex_mapping :: mapping_data where
  "ex_mapping = \<lparr>md_active_countries = ex_active, md_location_country_map = ex_locations,
                  mapping_hash = 7\<rparr>"

definition ex_env :: environment where
  "ex_env = \<lparr>config_errors = False, SMART_MAPPING_ENABLED = False,
             ENABLE_DATA_VALIDATION = True, cached_mapping = Some ex_mapping,
             remote_mapping = Inl RemoteError,
             bulk_export = (\<lambda>since. Inl RemoteError),
             GOOGLE_DRIVE_FOLDER_ID = ''folder'', upload_outcome = Inr 0, md5_json = (\<lambda>s. 0), now = 1000\<rparr>"

definition ex_run_disk :: disk where
  "ex_run_disk = ex_feed_disk\<lparr>sync_state_file := Some 500, mapping_comparison_file := Some 42\<rparr>"

definition ex_active2 :: active_countries where
  "ex_active2 = [(''CA'', \<lparr>ci_name = ''Kanada'', market_id = ''m7''\<rparr>),
                 (''US'', \<lparr>ci_name = ''USA'', market_id = ''m8''\<rparr>)]"

definition ex_locations2 :: location_country_map where
  "ex_locations2 = [(''20'', \<lparr>loc_name = ''North'', countries = [''CA'']\<rparr>),
                    (''10'', \<lparr>loc_name = ''Renamed'', countries = [''US'', ''CA'']\<rparr>)]"

definition ex_tables :: tables where
  "ex_tables = tables_of (records_of ex_stream)"

definition ex_oversold :: tables where
  "ex_oversold = tables_of
     [ex_variant_record ''1'', ex_level_record ''1'' ''10'' 2, ex_level_record ''1'' ''20'' (- 3)]"

definition ex_cv :: "string \<Rightarrow> string \<Rightarrow> string \<Rightarrow> int \<Rightarrow> country_variant" where
  "ex_cv n c cname q =
     \<lparr>cv_id = n @ ''-'' @ c, shopify_variant_id = n, country_code = c, country_name = cname,
      inventory_quantity = q, sku = ''SKU-'' @ n, product_id = ''9''\<rparr>"


definition ex_null_product :: bulk_record where
  "ex_null_product = (ex_variant_record ''6'')\<lparr>r_product := Null\<rparr>"

section \<open>Verification\<close>

subsection \<open>Conversion of quantities\<close>

lemma round_magnitude_small: "0 \<le> a \<Longrightarrow> a < 2 ^ 53 \<Longrightarrow> round_magnitude a = a"
  by (simp add: round_magnitude_def bitlen_le_iff_power)

lemma round_magnitude_pos:
  assumes "0 < a"
  shows "0 < round_magnitude a"
proof (cases "bitlen a \<le> 53")
  case True
  with assms show ?thesis by (simp add: round_magnitude_def)
next
  case False
  define s where "s = nat (bitlen a - 53)"
  define q where "q = a div 2 ^ s"
  define q' where "q' = (if a mod 2 ^ s > 2 ^ (s - 1) \<or>
      (a mod 2 ^ s = 2 ^ (s - 1) \<and> odd q) then q + 1 else q)"
  from bitlen_bounds [OF assms] have "2 ^ nat (bitlen a - 1) \<le> a" by simp
  moreover from False have "s \<le> nat (bitlen a - 1)" by (simp add: s_def)
  then have "(2::int) ^ s \<le> 2 ^ nat (bitlen a - 1)" by (simp add: power_increasing)
  ultimately have "2 ^ s \<le> a" by linarith
  then have "0 < q" unfolding q_def by (simp add: pos_imp_zdiv_pos_iff)
  then have "0 < q'" by (simp add: q'_def)
  then have m: "0 < q' * 2 ^ s" by simp
  from False have "round_magnitude a = q' * 2 ^ s"
    unfolding round_magnitude_def Let_def s_def q_def q'_def by (simp only: if_False)
  with m show ?thesis by simp
qed

lemma double_of_int_sign:
  assumes "double_of_int v = Some x"
  shows "(0 < x \<longleftrightarrow> 0 < v) \<and> (x < 0 \<longleftrightarrow> v < 0)"
proof -
  from assms have x: "x = sgn v * round_magnitude \<bar>v\<bar>"
    by (simp add: double_of_int_def Let_def split: if_splits)
  show ?thesis
  proof (cases "v = 0")
    case True
    with x show ?thesis by simp
  next
    case False
    then have "0 < round_magnitude \<bar>v\<bar>" by (simp add: round_magnitude_pos)
    with x False show ?thesis
      by (cases "v > 0") (simp_all add: sgn_if)
  qed
qed

lemma safe_int_sign:
  "safe_int v = Inr x \<Longrightarrow> (0 < x \<longleftrightarrow> 0 < v) \<and> (x < 0 \<longleftrightarrow> v < 0)"
  by (auto simp: safe_int_def dest!: double_of_int_sign split: option.splits)

lemma below_overflow: "(2::int) ^ 53 \<le> double_overflow"
  unfolding double_overflow_def by (rule power_increasing) simp_all

lemma safe_int_small: "\<bar>v\<bar> < 2 ^ 53 \<Longrightarrow> safe_int v = Inr v"
  using below_overflow
  by (simp add: safe_int_def double_of_int_def round_magnitude_small Let_def mult_sgn_abs)

lemma safe_int_huge: "safe_int (10 ^ 400) = Inl OverflowError"
  by code_simp

lemma safe_int_ex: "safe_int (2 ^ 1024 - 2 ^ 970 - 1) = Inr (2 ^ 1024 - 2 ^ 971)"
  "safe_int (2 ^ 1024 - 2 ^ 970) = Inl OverflowError"
  "safe_int (2 ^ 53 + 1) = Inr (2 ^ 53)" "safe_int (2 ^ 53 + 3) = Inr (2 ^ 53 + 4)"
  "safe_int (- 7) = Inr (- 7)"
  by code_simp+

subsection \<open>The state store\<close>

lemma fold_err_snoc:
  "fold_err f a (xs @ [x]) = (case fold_err f a xs of Inl e \<Rightarrow> Inl e | Inr b \<Rightarrow> f b x)"
  by (induction xs arbitrary: a) (auto split: sum.splits)

lemma current_status_converts:
  "converts v \<Longrightarrow> current_status_of v = Inr (status_text (inventory_quantity v))"
  by (auto simp: converts_def current_status_of_def status_text_def dest: safe_int_sign
      split: sum.splits)

lemma current_status_raises:
  "\<not> converts v \<Longrightarrow> current_status_of v = Inl OverflowError"
  by (auto simp: converts_def current_status_of_def safe_int_def split: sum.splits option.splits)

lemma lookup_step_converts:
  "converts v \<Longrightarrow>
   lookup_step lk v =
     Inr (if cv_id v \<noteq> [] then AList.update (cv_id v) (v, status_text (inventory_quantity v)) lk
          else lk)"
  by (simp add: lookup_step_def current_status_converts)

lemma state_step_converts:
  "converts v \<Longrightarrow>
   state_step ts m v =
     Inr (if cv_id v \<noteq> []
          then m(cv_id v \<mapsto> \<lparr>stock_status = status_text (inventory_quantity v), last_updated = ts\<rparr>)
          else m)"
  by (simp add: state_step_def current_status_converts)

lemma fold_err_returns:
  assumes "\<And>a x. x \<in> set xs \<Longrightarrow> \<exists>b. f a x = Inr b"
  shows "\<exists>b. fold_err f a xs = Inr b"
  using assms
proof (induction xs arbitrary: a)
  case Nil
  then show ?case by simp
next
  case (Cons x xs)
  from Cons.prems [of x a] obtain b where "f a x = Inr b" by auto
  moreover from Cons.IH [of b] Cons.prems obtain c where "fold_err f b xs = Inr c" by auto
  ultimately show ?case by simp
qed

lemma variant_lookup_returns:
  "\<forall>v\<in>set vs. converts v \<Longrightarrow> \<exists>lk. variant_lookup vs = Inr lk"
  unfolding variant_lookup_def
  by (rule fold_err_returns) (simp add: lookup_step_converts)

lemma state_fold_returns:
  "\<forall>v\<in>set vs. converts v \<Longrightarrow> \<exists>m'. fold_err (state_step ts) m vs = Inr m'"
  by (rule fold_err_returns) (simp add: state_step_converts)

lemma compare_states_new:
  "fst (compare_states ex lk) = map (fst \<circ> snd) (filter (\<lambda>p. ex (fst p) = None) lk)"
  by (induction ex lk rule: compare_states.induct) (auto split: prod.splits option.splits)

lemma compare_states_changed:
  "snd (compare_states ex lk) =
     map (fst \<circ> snd)
       (filter (\<lambda>p. case ex (fst p) of None \<Rightarrow> False
                     | Some st \<Rightarrow> stock_status st \<noteq> snd (snd p)) lk)"
  by (induction ex lk rule: compare_states.induct) (auto split: prod.splits option.splits)

lemma variant_lookup_snoc:
  "variant_lookup (vs @ [v]) =
     (case variant_lookup vs of Inl e \<Rightarrow> Inl e | Inr lk \<Rightarrow> lookup_step lk v)"
  by (simp add: variant_lookup_def fold_err_snoc)

lemma variant_lookup_distinct:
  "variant_lookup vs = Inr lk \<Longrightarrow> distinct (map fst lk)"
proof (induction vs arbitrary: lk rule: rev_induct)
  case Nil
  then show ?case by (simp add: variant_lookup_def)
next
  case (snoc x xs)
  then show ?case
    by (auto simp: variant_lookup_snoc lookup_step_def distinct_update
        split: sum.splits if_splits)
qed

lemma commit_covers_lookup:
  "variant_lookup vs = Inr lk \<Longrightarrow> fold_err (state_step ts) m vs = Inr m' \<Longrightarrow>
   map_of lk k = Some (v, s) \<Longrightarrow> \<exists>st. m' k = Some st \<and> stock_status st = s"
proof (induction vs arbitrary: lk m' v s rule: rev_induct)
  case Nil
  then show ?case by (simp add: variant_lookup_def)
next
  case (snoc x xs)
  from snoc.prems(1) obtain lk0 where lk0: "variant_lookup xs = Inr lk0" "lookup_step lk0 x = Inr lk"
    by (auto simp: variant_lookup_snoc split: sum.splits)
  from snoc.prems(2) obtain m0 where m0: "fold_err (state_step ts) m xs = Inr m0"
    "state_step ts m0 x = Inr m'"
    by (auto simp: fold_err_snoc split: sum.splits)
  show ?case
  proof (cases "cv_id x \<noteq> [] \<and> cv_id x = k")
    case True
    then obtain cs where cs: "current_status_of x = Inr cs"
      "lk = AList.update k (x, cs) lk0"
      "m' = m0(k \<mapsto> \<lparr>stock_status = cs, last_updated = ts\<rparr>)"
      using lk0(2) m0(2) by (auto simp: lookup_step_def state_step_def split: sum.splits)
    with snoc.prems(3) have "s = cs" by (simp add: update_conv')
    with cs show ?thesis by simp
  next
    case False
    have "map_of lk0 k = Some (v, s)"
      using False lk0(2) snoc.prems(3)
      by (auto simp: lookup_step_def update_conv' split: if_splits sum.splits)
    from snoc.IH [OF lk0(1) m0(1) this] obtain st where "m0 k = Some st" "stock_status st = s"
      by blast
    moreover have "m' k = m0 k"
      using False m0(2) by (auto simp: state_step_def split: if_splits sum.splits)
    ultimately show ?thesis by simp
  qed
qed

lemma compare_states_all_match:
  assumes "\<And>k v s. (k, v, s) \<in> set lk \<Longrightarrow> \<exists>st. ex k = Some st \<and> stock_status st = s"
  shows "compare_states ex lk = ([], [])"
  using assms
proof (induction ex lk rule: compare_states.induct)
  case (1 existing)
  then show ?case by simp
next
  case (2 existing variant_id variant current_status rest)
  from "2.prems" [of variant_id variant current_status]
  obtain st where st: "existing variant_id = Some st" "stock_status st = current_status"
    by auto
  have "compare_states existing rest = ([], [])"
    by (rule "2.IH") (auto intro: "2.prems")
  with st show ?case by simp
qed

text \<open>
  Committing a list twice and diffing it afterwards gives two empty lists whenever
  \<open>_safe_int\<close> converts every quantity of the list.
\<close>

lemma commit_twice_then_diff_empty_convertible:
  assumes "\<forall>v\<in>set vs. converts v"
  shows "\<exists>d1 d2. update_variant_states t1 vs d = Inr d1 \<and>
           update_variant_states t2 vs d1 = Inr d2 \<and>
           detect_stock_changes d2 vs = Inr ([], [])"
proof (cases "vs = []")
  case True
  then show ?thesis by (simp add: update_variant_states_def detect_stock_changes_def)
next
  case False
  from state_fold_returns [OF assms] obtain m1 where
    m1: "fold_err (state_step t1) (load_variant_states d) vs = Inr m1" by blast
  define d1 where "d1 = d\<lparr>variant_states_file := Some m1\<rparr>"
  from state_fold_returns [OF assms] obtain m2 where
    m2: "fold_err (state_step t2) (load_variant_states d1) vs = Inr m2" by blast
  define d2 where "d2 = d1\<lparr>variant_states_file := Some m2\<rparr>"
  from variant_lookup_returns [OF assms] obtain lk where lk: "variant_lookup vs = Inr lk" by blast
  have "compare_states m2 lk = ([], [])"
  proof (rule compare_states_all_match)
    fix k v s
    assume "(k, v, s) \<in> set lk"
    then have "map_of lk k = Some (v, s)"
      using variant_lookup_distinct [OF lk] by simp
    from commit_covers_lookup [OF lk m2 this]
    show "\<exists>st. m2 k = Some st \<and> stock_status st = s" .
  qed
  then have "detect_stock_changes d2 vs = Inr ([], [])"
    using False lk by (simp add: detect_stock_changes_def d2_def load_variant_states_def)
  moreover have "update_variant_states t1 vs d = Inr d1"
    using False m1 by (simp add: update_variant_states_def d1_def)
  moreover have "update_variant_states t2 vs d1 = Inr d2"
    using False m2 by (simp add: update_variant_states_def d2_def)
  ultimately show ?thesis by blast
qed


lemma update_fresh:
  "k \<notin> fst ` set al \<Longrightarrow> AList.update k v al = al @ [(k, v)]"
  by (induction al) auto

lemma variant_lookup_distinct_ids:
  "\<forall>v\<in>set vs. cv_id v \<noteq> [] \<Longrightarrow> distinct (map cv_id vs) \<Longrightarrow> \<forall>v\<in>set vs. converts v \<Longrightarrow>
   variant_lookup vs = Inr (map (\<lambda>v. (cv_id v, v, status_text (inventory_quantity v))) vs)"
proof (induction vs rule: rev_induct)
  case Nil
  then show ?case by (simp add: variant_lookup_def)
next
  case (snoc x xs)
  then have IH: "variant_lookup xs =
      Inr (map (\<lambda>v. (cv_id v, v, status_text (inventory_quantity v))) xs)"
    by simp
  let ?lk = "map (\<lambda>v. (cv_id v, v, status_text (inventory_quantity v))) xs"
  from snoc.prems have "cv_id x \<notin> fst ` set ?lk"
    by (auto simp: image_iff)
  then have "AList.update (cv_id x) (x, status_text (inventory_quantity x)) ?lk
      = ?lk @ [(cv_id x, x, status_text (inventory_quantity x))]"
    by (rule update_fresh)
  with snoc.prems show ?case
    by (simp add: variant_lookup_snoc IH lookup_step_converts)
qed

lemma detect_distinct:
  assumes "\<forall>v\<in>set vs. cv_id v \<noteq> []" "distinct (map cv_id vs)" "\<forall>v\<in>set vs. converts v"
  shows "detect_stock_changes d vs =
     Inr (filter (\<lambda>v. load_variant_states d (cv_id v) = None) vs,
          filter (\<lambda>v. case load_variant_states d (cv_id v) of None \<Rightarrow> False
                       | Some st \<Rightarrow> stock_status st \<noteq> status_text (inventory_quantity v)) vs)"
proof (cases "vs = []")
  case True
  then show ?thesis by (simp add: detect_stock_changes_def)
next
  case False
  let ?lk = "map (\<lambda>v. (cv_id v, v, status_text (inventory_quantity v))) vs"
  have "compare_states (load_variant_states d) ?lk =
      (fst (compare_states (load_variant_states d) ?lk),
       snd (compare_states (load_variant_states d) ?lk))" by simp
  also have "\<dots> = (filter (\<lambda>v. load_variant_states d (cv_id v) = None) vs,
          filter (\<lambda>v. case load_variant_states d (cv_id v) of None \<Rightarrow> False
                       | Some st \<Rightarrow> stock_status st \<noteq> status_text (inventory_quantity v)) vs)"
    by (simp add: compare_states_new compare_states_changed filter_map comp_def
        cong: option.case_cong)
  finally show ?thesis
    using False variant_lookup_distinct_ids [OF assms]
    by (simp add: detect_stock_changes_def)
qed

text \<open>
  Claim C2, amended.  For a list of country variants whose composite keys are non-empty
  and pairwise distinct and whose quantities \<open>_safe_int\<close> converts,
  \<open>detect_stock_changes\<close> returns, and its two lists together with the variants it
  leaves out partition the input: a variant is new iff its key has no persisted state,
  changed iff the persisted availability differs from the current one, unchanged iff
  they are equal; the three sets are pairwise disjoint and their union is the input.
\<close>

theorem diff_partitions_keyed_input:
  assumes "\<forall>v\<in>set vs. cv_id v \<noteq> []" and "distinct (map cv_id vs)"
    and "\<forall>v\<in>set vs. converts v"
  shows
   "\<exists>new_variants changed_variants.
      detect_stock_changes d vs = Inr (new_variants, changed_variants) \<and>
      set new_variants = {v \<in> set vs. load_variant_states d (cv_id v) = None} \<and>
      set changed_variants =
        {v \<in> set vs. \<exists>st. load_variant_states d (cv_id v) = Some st \<and>
                            current_status_of v \<noteq> Inr (stock_status st)} \<and>
      set (unchanged_variants d vs) =
        {v \<in> set vs. \<exists>st. load_variant_states d (cv_id v) = Some st \<and>
                            current_status_of v = Inr (stock_status st)} \<and>
      set new_variants \<inter> set changed_variants = {} \<and>
      set (unchanged_variants d vs) \<inter> (set new_variants \<union> set changed_variants) = {} \<and>
      set new_variants \<union> set changed_variants \<union> set (unchanged_variants d vs) = set vs"
proof -
  define n where "n = filter (\<lambda>v. load_variant_states d (cv_id v) = None) vs"
  define c where "c = filter (\<lambda>v. case load_variant_states d (cv_id v) of None \<Rightarrow> False
                       | Some st \<Rightarrow> stock_status st \<noteq> status_text (inventory_quantity v)) vs"
  have dt: "detect_stock_changes d vs = Inr (n, c)"
    unfolding n_def c_def by (rule detect_distinct [OF assms])
  have cs: "current_status_of v = Inr (status_text (inventory_quantity v))" if "v \<in> set vs" for v
    using that assms(3) by (simp add: current_status_converts)
  have sn: "set n = {v \<in> set vs. load_variant_states d (cv_id v) = None}"
    by (simp add: n_def)
  have sc: "set c = {v \<in> set vs. \<exists>st. load_variant_states d (cv_id v) = Some st \<and>
                            current_status_of v \<noteq> Inr (stock_status st)}"
    by (auto simp: c_def cs split: option.splits)
  have su: "set (unchanged_variants d vs) =
        {v \<in> set vs. \<exists>st. load_variant_states d (cv_id v) = Some st \<and>
                            current_status_of v = Inr (stock_status st)}"
    unfolding unchanged_variants_def dt by (auto simp: sn sc)
  have "set n \<inter> set c = {}" "set (unchanged_variants d vs) \<inter> (set n \<union> set c) = {}"
    "set n \<union> set c \<union> set (unchanged_variants d vs) = set vs"
    unfolding sn sc su by auto
  with dt sn sc su show ?thesis by blast
qed

lemma ex_converts: "\<forall>v\<in>set ex_vs. converts v"
  by (simp add: ex_vs_def ex_variant_def converts_def safe_int_small)

text \<open>
  The hypotheses hold of three variants with the keys 1-US (no state), 2-US (stored in
  stock, now 0) and 3-US (stored in stock, now 1).
\<close>

theorem diff_partitions_keyed_input_witness:
  "[] \<notin> set (map cv_id ex_vs) \<and> distinct (map cv_id ex_vs) \<and>
   detect_stock_changes ex_disk ex_vs =
     Inr ([ex_variant ''1'' ''US'' 5], [ex_variant ''2'' ''US'' 0]) \<and>
   set (unchanged_variants ex_disk ex_vs) = {ex_variant ''3'' ''US'' 1}"
proof -
  have h1: "\<forall>v\<in>set ex_vs. cv_id v \<noteq> []" by (simp add: ex_vs_def ex_variant_def)
  have h1': "[] \<notin> set (map cv_id ex_vs)" by (simp add: ex_vs_def ex_variant_def)
  have h2: "distinct (map cv_id ex_vs)" by (simp add: ex_vs_def ex_variant_def)
  from diff_partitions_keyed_input [OF h1 h2 ex_converts, of ex_disk]
  obtain n c where nc: "detect_stock_changes ex_disk ex_vs = Inr (n, c)"
    "set n = {v \<in> set ex_vs. load_variant_states ex_disk (cv_id v) = None}"
    "set (unchanged_variants ex_disk ex_vs) =
        {v \<in> set ex_vs. \<exists>st. load_variant_states ex_disk (cv_id v) = Some st \<and>
                            current_status_of v = Inr (stock_status st)}"
    by blast
  have d: "detect_stock_changes ex_disk ex_vs =
     Inr ([ex_variant ''1'' ''US'' 5], [ex_variant ''2'' ''US'' 0])"
    by (simp add: detect_distinct [OF h1 h2 ex_converts])
       (simp add: ex_vs_def ex_variant_def ex_disk_def load_variant_states_def status_text_def)
  have u: "set (unchanged_variants ex_disk ex_vs) = {ex_variant ''3'' ''US'' 1}"
    unfolding nc(3)
    by (auto simp: ex_vs_def ex_variant_def ex_disk_def load_variant_states_def
        current_status_of_def safe_int_small status_text_def split: if_splits)
  from h1' h2 d u show ?thesis by blast
qed

text \<open>
  The claim as stated fails: a variant without an id has no persisted state and is in
  neither list, and of two variants with the same id only the last one is classified.
\<close>

theorem diff_partition_counterexample:
  "load_variant_states ex_disk (cv_id ex_noid) = None \<and>
   detect_stock_changes ex_disk [ex_noid] = Inr ([], []) \<and>
   load_variant_states ex_disk (cv_id (ex_variant ''1'' ''US'' 5)) = None \<and>
   detect_stock_changes ex_disk [ex_variant ''1'' ''US'' 5, ex_variant ''1'' ''US'' 0] =
     Inr ([ex_variant ''1'' ''US'' 0], [])"
  by (simp add: detect_stock_changes_def ex_noid_def ex_variant_def ex_disk_def
      variant_lookup_def lookup_step_def load_variant_states_def current_status_of_def
      safe_int_small status_text_def)

lemma ex_huge_raises: "current_status_of ex_huge = Inl OverflowError"
proof -
  have "inventory_quantity ex_huge = 10 ^ 400" by (simp add: ex_huge_def ex_variant_def)
  then show ?thesis by (simp only: current_status_of_def safe_int_huge sum.case)
qed

text \<open>
  Claim C8.  \<open>update_variant_states\<close> and \<open>detect_stock_changes\<close> call \<open>_safe_int\<close>
  outside any \<open>try\<close>, and \<open>_safe_int\<close> catches \<open>ValueError\<close> and \<open>TypeError\<close> only.
  On the single variant with the id 1-US and the quantity \<open>10^400\<close> both raise
  \<open>OverflowError\<close>: the first commit does not return, and neither does the diff, where
  the claim has two empty lists.
\<close>

theorem commit_overflow_raises:
  "cv_id ex_huge = ''1-US'' \<and> inventory_quantity ex_huge = 10 ^ 400 \<and>
   update_variant_states 0 [ex_huge] ex_disk = Inl OverflowError \<and>
   detect_stock_changes ex_disk [ex_huge] = Inl OverflowError"
proof -
  have i: "cv_id ex_huge = ''1-US''" "inventory_quantity ex_huge = 10 ^ 400"
    by (simp_all add: ex_huge_def ex_variant_def)
  have u: "update_variant_states 0 [ex_huge] ex_disk = Inl OverflowError"
    by (simp add: update_variant_states_def state_step_def ex_huge_raises i(1))
  have d: "detect_stock_changes ex_disk [ex_huge] = Inl OverflowError"
    by (simp add: detect_stock_changes_def variant_lookup_def lookup_step_def ex_huge_raises i(1))
  from i u d show ?thesis by blast
qed


subsection \<open>The feed writer\<close>

lemma feed_filename_inj: "feed_filename a = feed_filename b \<longleftrightarrow> a = b"
  by (simp add: feed_filename_def)

lemma full_step_snd_other:
  "f \<noteq> feed_filename c \<Longrightarrow>
   output_dir (snd (full_step e vs acc c)) f = output_dir (snd acc) f"
  by (simp add: full_step_def create_country_feed_streaming_def Let_def)

lemma full_step_snd_same:
  "output_dir (snd (full_step e vs acc c)) (feed_filename c) =
     Some (feed_rows e (create_country_variant_generator vs c) c)"
  by (simp add: full_step_def create_country_feed_streaming_def Let_def)

lemma full_fold_other:
  "f \<notin> feed_filename ` set cs \<Longrightarrow>
   output_dir (snd (foldl (full_step e vs) acc cs)) f = output_dir (snd acc) f"
  by (induction cs rule: rev_induct) (simp_all add: full_step_snd_other)

lemma full_fold_written:
  "c \<in> set cs \<Longrightarrow>
   output_dir (snd (foldl (full_step e vs) acc cs)) (feed_filename c) =
     Some (feed_rows e (create_country_variant_generator vs c) c)"
proof (induction cs rule: rev_induct)
  case Nil
  then show ?case by simp
next
  case (snoc x xs)
  show ?case
  proof (cases "x = c")
    case True
    then show ?thesis by (simp add: full_step_snd_same)
  next
    case False
    with snoc have "c \<in> set xs" by simp
    from snoc.IH [OF this] False show ?thesis
      by (simp add: full_step_snd_other feed_filename_inj)
  qed
qed

lemma two_capitals_feed_file:
  assumes "length c = 2" "list_all upper_az c"
  shows "glob_matches (feed_filename c) \<and> extract_country_from_filename (feed_filename c) = Some c"
proof -
  from assms obtain a b where c: "c = [a, b]"
    by (cases c; cases "tl c") auto
  with assms show ?thesis
    by (simp add: glob_matches_def extract_country_from_filename_def feed_filename_def
        FEED_PREFIX_def FEED_EXTENSION_def Let_def)
qed

lemma cleanup_deletes_orphan:
  assumes "length c = 2" "list_all upper_az c" "c \<notin> set cur"
  shows "output_dir (cleanup_orphaned_country_files cur d) (feed_filename c) = None"
  using two_capitals_feed_file [OF assms(1,2)] assms(3)
  by (simp add: cleanup_orphaned_country_files_def orphaned_file_def)

lemma current_countries_set:
  "set (get_current_countries e vs) =
     {c. \<exists>v\<in>set vs. country_code v = c \<and> c \<noteq> [] \<and> product_id v \<noteq> [] \<and>
                       validate_variant_data e v}"
  by (auto simp: get_current_countries_def)

lemma countries_to_update_subset:
  "c \<in> set (get_countries_to_update e vs) \<Longrightarrow> \<exists>v\<in>set vs. country_code v = c"
  by (auto simp: get_countries_to_update_def)

lemma update_stream_other:
  "update_country_feed_streaming e new chg c file d = Inr d' \<Longrightarrow> f \<noteq> file \<Longrightarrow>
   output_dir d' f = output_dir d f"
  by (auto simp: update_country_feed_streaming_def Let_def split: if_splits sum.splits)

lemma update_stream_keeps:
  "update_country_feed_streaming e new chg c file d = Inr d' \<Longrightarrow> output_dir d f \<noteq> None \<Longrightarrow>
   output_dir d' f \<noteq> None"
  by (auto simp: update_country_feed_streaming_def Let_def split: if_splits sum.splits)

lemma incremental_loop_other:
  "f \<notin> feed_filename ` set cs \<Longrightarrow>
   output_dir (snd (incremental_loop e new chg cs (files, d))) f = output_dir d f"
proof (induction cs arbitrary: files d)
  case Nil
  then show ?case by simp
next
  case (Cons c cs)
  show ?case
  proof (cases "update_country_feed_streaming e new chg c (feed_filename c) d")
    case (Inl err)
    then show ?thesis by simp
  next
    case (Inr d')
    from Cons.prems have "f \<noteq> feed_filename c" "f \<notin> feed_filename ` set cs" by auto
    with Cons.IH [of "files @ [feed_filename c]" d'] update_stream_other [OF Inr]
    show ?thesis using Inr by simp
  qed
qed

lemma incremental_loop_keeps:
  "output_dir d f \<noteq> None \<Longrightarrow>
   output_dir (snd (incremental_loop e new chg cs (files, d))) f \<noteq> None"
proof (induction cs arbitrary: files d)
  case Nil
  then show ?case by simp
next
  case (Cons c cs)
  show ?case
  proof (cases "update_country_feed_streaming e new chg c (feed_filename c) d")
    case (Inl err)
    with Cons.prems show ?thesis by simp
  next
    case (Inr d')
    from update_stream_keeps [OF Inr Cons.prems] have "output_dir d' f \<noteq> None" .
    from Cons.IH [OF this, of "files @ [feed_filename c]"] show ?thesis using Inr by simp
  qed
qed

lemma full_writes_current:
  assumes "vs \<noteq> []" "c \<in> set (get_current_countries e vs)"
  shows "output_dir (snd (create_country_feeds_full e vs d)) (feed_filename c) =
           Some (feed_rows e (create_country_variant_generator vs c) c)"
  using assms by (simp add: create_country_feeds_full_def Let_def full_fold_written)

lemma full_deletes_orphans:
  assumes "vs \<noteq> []" "length c = 2" "list_all upper_az c"
    "c \<notin> set (get_current_countries e vs)"
  shows "output_dir (snd (create_country_feeds_full e vs d)) (feed_filename c) = None"
proof -
  from assms(4) have "feed_filename c \<notin> feed_filename ` set (get_current_countries e vs)"
    by (auto simp: feed_filename_inj)
  then show ?thesis
    using assms(1) cleanup_deletes_orphan [OF assms(2,3,4)]
    by (simp add: create_country_feeds_full_def Let_def full_fold_other)
qed

lemma incremental_never_deletes:
  assumes "output_dir d f \<noteq> None"
  shows "output_dir (snd (update_country_feeds_incremental e new chg d)) f \<noteq> None"
proof (cases "new = [] \<and> chg = []")
  case True
  with assms show ?thesis by (simp add: update_country_feeds_incremental_def)
next
  case False
  then have "update_country_feeds_incremental e new chg d =
      incremental_loop e new chg (get_countries_to_update e (new @ chg)) ([], d)"
    by (auto simp: update_country_feeds_incremental_def Let_def)
  with incremental_loop_keeps [OF assms] show ?thesis by simp
qed

lemma incremental_untouched:
  assumes "\<forall>v\<in>set (new @ chg). country_code v \<noteq> c"
  shows "output_dir (snd (update_country_feeds_incremental e new chg d)) (feed_filename c) =
           output_dir d (feed_filename c)"
proof -
  from assms have "c \<notin> set (get_countries_to_update e (new @ chg))"
    using countries_to_update_subset by blast
  then have "feed_filename c \<notin> feed_filename ` set (get_countries_to_update e (new @ chg))"
    by (auto simp: feed_filename_inj)
  then show ?thesis
    by (simp add: update_country_feeds_incremental_def Let_def incremental_loop_other)
qed

lemma upper_az_U: "upper_az CHR ''U''" "upper_az CHR ''S''" "upper_az CHR ''C''" "upper_az CHR ''A''"
  "upper_az CHR ''D''" "upper_az CHR ''E''"
  by (simp_all add: upper_az_def)

lemma t1: "get_current_countries True ex_full_vs = [''US'']"
  by (simp add: get_current_countries_def ex_full_vs_def ex_variant_def validate_variant_data_def
      matches_country_code_def safe_int_small upper_az_U)

lemma two_caps: "length ''CA'' = 2" "list_all upper_az ''CA''" "length ''DE'' = 2" "list_all upper_az ''DE''"
  by (simp_all add: upper_az_U)

text \<open>
  C6 (amended).  Full mode, on a non-empty list, writes the feed file of every current
  country, a country being current when one of its variants has a product id and passes
  validation, and leaves no file \<open>country_feed_XX.csv\<close> (\<open>XX\<close> two capital letters) of a
  country that is not current.  Incremental mode deletes no file of the feed directory,
  and leaves the file of every country without a new or changed variant as it was.
\<close>

theorem feed_writer_full_and_incremental:
  "(variants \<noteq> [] \<longrightarrow>
      (\<forall>c\<in>set (get_current_countries e variants).
         output_dir (snd (create_country_feeds_full e variants d)) (feed_filename c) =
           Some (feed_rows e (create_country_variant_generator variants c) c)) \<and>
      (\<forall>c. length c = 2 \<and> list_all upper_az c \<and>
            c \<notin> set (get_current_countries e variants) \<longrightarrow>
         output_dir (snd (create_country_feeds_full e variants d)) (feed_filename c) = None)) \<and>
   set (get_current_countries e variants) =
     {c. \<exists>v\<in>set variants. country_code v = c \<and> c \<noteq> [] \<and> product_id v \<noteq> [] \<and>
                             validate_variant_data e v} \<and>
   (\<forall>f. output_dir d f \<noteq> None \<longrightarrow>
      output_dir (snd (update_country_feeds_incremental e new chg d)) f \<noteq> None) \<and>
   (\<forall>c. (\<forall>v\<in>set (new @ chg). country_code v \<noteq> c) \<longrightarrow>
      output_dir (snd (update_country_feeds_incremental e new chg d)) (feed_filename c) =
        output_dir d (feed_filename c))"
proof (intro conjI impI allI ballI)
  fix c assume "variants \<noteq> []" "c \<in> set (get_current_countries e variants)"
  then show "output_dir (snd (create_country_feeds_full e variants d)) (feed_filename c) =
           Some (feed_rows e (create_country_variant_generator variants c) c)"
    by (rule full_writes_current)
next
  fix c assume "variants \<noteq> []"
    "length c = 2 \<and> list_all upper_az c \<and> c \<notin> set (get_current_countries e variants)"
  then show "output_dir (snd (create_country_feeds_full e variants d)) (feed_filename c) = None"
    by (simp add: full_deletes_orphans)
next
  show "set (get_current_countries e variants) =
     {c. \<exists>v\<in>set variants. country_code v = c \<and> c \<noteq> [] \<and> product_id v \<noteq> [] \<and>
                             validate_variant_data e v}"
    by (rule current_countries_set)
next
  fix f assume "output_dir d f \<noteq> None"
  then show "output_dir (snd (update_country_feeds_incremental e new chg d)) f \<noteq> None"
    by (rule incremental_never_deletes)
next
  fix c assume "\<forall>v\<in>set (new @ chg). country_code v \<noteq> c"
  then show "output_dir (snd (update_country_feeds_incremental e new chg d)) (feed_filename c) =
        output_dir d (feed_filename c)"
    by (rule incremental_untouched)
qed

theorem feed_writer_full_and_incremental_witness:
  "output_dir (snd (create_country_feeds_full True ex_full_vs ex_feed_disk)) (feed_filename ''US'') =
     Some [(''1'', ''US'', ''in stock'')] \<and>
   output_dir (snd (create_country_feeds_full True ex_full_vs ex_feed_disk)) (feed_filename ''DE'') = None \<and>
   output_dir (snd (update_country_feeds_incremental True [ex_variant ''7'' ''US'' 2] [] ex_feed_disk))
     (feed_filename ''US'') = Some [(''1'', ''US'', ''out of stock''), (''7'', ''US'', ''in stock'')] \<and>
   output_dir (snd (update_country_feeds_incremental True [ex_variant ''7'' ''US'' 2] [] ex_feed_disk))
     (feed_filename ''DE'') = Some [(''3'', ''DE'', ''in stock'')]"
proof -
  note T = feed_writer_full_and_incremental [of ex_full_vs True ex_feed_disk
      "[ex_variant ''7'' ''US'' 2]" "[]"]
  have ne: "ex_full_vs \<noteq> []" by (simp add: ex_full_vs_def)
  have rows: "feed_rows True (create_country_variant_generator ex_full_vs ''US'') ''US'' =
      [(''1'', ''US'', ''in stock'')]"
    by (simp add: feed_rows_def create_country_variant_generator_def ex_full_vs_def ex_variant_def
        validate_variant_data_def matches_country_code_def safe_int_small upper_az_U
        List.map_filter_def format_csv_row_def extract_shopify_variant_id_def availability_of_def)
  from T ne have a: "output_dir (snd (create_country_feeds_full True ex_full_vs ex_feed_disk))
      (feed_filename ''US'') = Some [(''1'', ''US'', ''in stock'')]"
    by (simp add: t1 rows)
  from T ne two_caps have b: "output_dir (snd (create_country_feeds_full True ex_full_vs ex_feed_disk))
      (feed_filename ''DE'') = None"
    by (simp add: t1)
  have "\<forall>v\<in>set ([ex_variant ''7'' ''US'' 2] @ []). country_code v \<noteq> ''DE''"
    by (simp add: ex_variant_def)
  with T have "output_dir (snd (update_country_feeds_incremental True [ex_variant ''7'' ''US'' 2] [] ex_feed_disk))
     (feed_filename ''DE'') = output_dir ex_feed_disk (feed_filename ''DE'')"
    by blast
  then have d: "output_dir (snd (update_country_feeds_incremental True [ex_variant ''7'' ''US'' 2] [] ex_feed_disk))
     (feed_filename ''DE'') = Some [(''3'', ''DE'', ''in stock'')]"
    by (simp add: ex_feed_disk_def feed_filename_inj)
  have c: "output_dir (snd (update_country_feeds_incremental True [ex_variant ''7'' ''US'' 2] [] ex_feed_disk))
     (feed_filename ''US'') = Some [(''1'', ''US'', ''out of stock''), (''7'', ''US'', ''in stock'')]"
    by (simp add: update_country_feeds_incremental_def get_countries_to_update_def Let_def
        update_country_feed_streaming_def change_lookup_step_def copy_existing_rows_def
        feed_rows_def ex_variant_def ex_feed_disk_def feed_filename_inj
        validate_variant_data_def matches_country_code_def safe_int_small upper_az_U
        List.map_filter_def format_csv_row_def extract_shopify_variant_id_def availability_of_def)
  from a b c d show ?thesis by blast
qed


text \<open>
  C6 as stated fails in full mode.  A country whose variants all lack a product id is in
  the variant list but is not current: its file is not written, and the one it had is
  removed as an orphan.  On the empty list full mode returns before the cleanup, so the
  file of an absent country stays.
\<close>

theorem feed_writer_counterexample:
  "country_code (ex_full_vs ! 1) = ''CA'' \<and>
   output_dir ex_feed_disk (feed_filename ''CA'') \<noteq> None \<and>
   output_dir (snd (create_country_feeds_full True ex_full_vs ex_feed_disk)) (feed_filename ''CA'') = None \<and>
   output_dir (snd (create_country_feeds_full True [] ex_feed_disk)) (feed_filename ''DE'') \<noteq> None"
proof -
  have a: "country_code (ex_full_vs ! 1) = ''CA''"
    by (simp add: ex_full_vs_def ex_variant_def)
  have b: "output_dir ex_feed_disk (feed_filename ''CA'') \<noteq> None"
    by (simp add: ex_feed_disk_def feed_filename_inj)
  have "ex_full_vs \<noteq> []" by (simp add: ex_full_vs_def)
  moreover have "''CA'' \<notin> set (get_current_countries True ex_full_vs)" by (simp add: t1)
  ultimately have c: "output_dir (snd (create_country_feeds_full True ex_full_vs ex_feed_disk))
      (feed_filename ''CA'') = None"
    using two_caps by (simp add: full_deletes_orphans)
  have d: "output_dir (snd (create_country_feeds_full True [] ex_feed_disk)) (feed_filename ''DE'') \<noteq> None"
    by (simp add: create_country_feeds_full_def ex_feed_disk_def feed_filename_inj)
  from a b c d show ?thesis by blast
qed


lemma safe_int_raises: "safe_int v = Inl e \<Longrightarrow> e = OverflowError"
  by (simp add: safe_int_def split: option.splits)

text \<open>
  Claim C9.  Every row of a feed has an identifier that is a function of the product id
  and the composite variant id (and the constant store prefix) alone: in the Google
  feed it is \<open>shopify_US_{product_id}_{base_id}\<close>, in the Meta feed the composite id up
  to its last dash, and two variants that agree on the composite id and the product id
  have the same identifier in every row made of them, whatever their quantities and
  other fields are and whichever run makes the row.
\<close>

theorem row_identifier_deterministic:
  "(tsv_row enabled v = Inr (Some r) \<longrightarrow>
      fst r = ''shopify_US_'' @ product_id v @ ''_'' @ extract_variant_id v) \<and>
   (format_csv_row v country = Some row \<longrightarrow> fst row = extract_shopify_variant_id v) \<and>
   (cv_id v = cv_id w \<and> product_id v = product_id w \<and>
    tsv_row enabled v = Inr (Some r) \<and> tsv_row enabled' w = Inr (Some r') \<longrightarrow> fst r = fst r') \<and>
   (cv_id v = cv_id w \<and>
    format_csv_row v country = Some row \<and> format_csv_row w country' = Some row' \<longrightarrow>
      fst row = fst row')"
  by (auto simp: tsv_row_def extract_variant_id_def format_csv_row_def
      extract_shopify_variant_id_def Let_def split: if_splits sum.splits)

theorem row_identifier_deterministic_witness:
  "inventory_quantity (ex_variant ''1'' ''US'' 5) \<noteq> inventory_quantity (ex_variant ''1'' ''US'' 0) \<and>
   tsv_row True (ex_variant ''1'' ''US'' 5) = Inr (Some (''shopify_US_P1_1'', ''in stock'')) \<and>
   tsv_row False (ex_variant ''1'' ''US'' 0) = Inr (Some (''shopify_US_P1_1'', ''out of stock'')) \<and>
   format_csv_row (ex_variant ''1'' ''US'' 5) ''US'' = Some (''1'', ''US'', ''in stock'') \<and>
   format_csv_row (ex_variant ''1'' ''US'' 0) ''US'' = Some (''1'', ''US'', ''out of stock'') \<and>
   fst (''shopify_US_P1_1'', ''in stock'') = fst (''shopify_US_P1_1'', ''out of stock'')"
proof -
  have rows: "inventory_quantity (ex_variant ''1'' ''US'' 5) \<noteq> inventory_quantity (ex_variant ''1'' ''US'' 0)"
    "tsv_row True (ex_variant ''1'' ''US'' 5) = Inr (Some (''shopify_US_P1_1'', ''in stock''))"
    "tsv_row False (ex_variant ''1'' ''US'' 0) = Inr (Some (''shopify_US_P1_1'', ''out of stock''))"
    "format_csv_row (ex_variant ''1'' ''US'' 5) ''US'' = Some (''1'', ''US'', ''in stock'')"
    "format_csv_row (ex_variant ''1'' ''US'' 0) ''US'' = Some (''1'', ''US'', ''out of stock'')"
    by (simp_all add: ex_variant_def tsv_row_def extract_variant_id_def format_csv_row_def
        extract_shopify_variant_id_def availability_of_def safe_int_small
        validate_variant_data_def matches_country_code_def upper_az_U)
  have h: "cv_id (ex_variant ''1'' ''US'' 5) = cv_id (ex_variant ''1'' ''US'' 0) \<and>
      product_id (ex_variant ''1'' ''US'' 5) = product_id (ex_variant ''1'' ''US'' 0)"
    by (simp add: ex_variant_def)
  from row_identifier_deterministic [of True "ex_variant ''1'' ''US'' 5"
      "(''shopify_US_P1_1'', ''in stock'')" "''US''" "(''1'', ''US'', ''in stock'')"
      "ex_variant ''1'' ''US'' 0" False "(''shopify_US_P1_1'', ''out of stock'')"] h rows
  have "fst (''shopify_US_P1_1'', ''in stock'') = fst (''shopify_US_P1_1'', ''out of stock'')"
    by blast
  with rows show ?thesis by blast
qed

lemma no_row_at_overflow:
  "format_csv_row ex_huge ''US'' = None \<and> tsv_row False ex_huge = Inl OverflowError \<and>
   tsv_row True ex_huge = Inr None"
  by code_simp


subsection \<open>The record graph build\<close>














text \<open>
  A record whose \<open>product\<close> is \<open>null\<close>, in a stream that has a target country, makes the
  projection raise \<open>AttributeError\<close> after the reading loop, and the load with it.
\<close>

lemma load_null_product_raises:
  "load_products_from_bulk_jsonl
     (Some [Record ex_null_product, Record (ex_variant_record ''1''),
            Record (ex_level_record ''1'' ''10'' 5)]) ex_active ex_locations = Inl AttributeError"
  by code_simp


end
